theory Spec2Isabelle
  imports Main "HOL-Library.Product_Lexorder" "HOL-Library.Multiset" "HOL-Library.Sublist"
begin

section \<open>Namecheap domain checker: the model\<close>

text \<open>
  The program is one Python file, \<^verbatim>\<open>namecheap-checker.py\<close>, with three functions:
  \<^verbatim>\<open>get_domains\<close> (fetch and parse), \<^verbatim>\<open>parse_date\<close> and \<^verbatim>\<open>display_domains\<close>
  (the report). Exceptions are values of the type \<open>error\<close>; console output is the list of
  printed lines; the file system is a map from file names to contents.

  Python strings are modelled by \<open>string\<close>, so a character is a code point below 256.
  In that range the decimal digits (the regular expression class \<^verbatim>\<open>\d\<close>) are exactly
  \<^verbatim>\<open>0\<close> to \<^verbatim>\<open>9\<close>.
\<close>

datatype error = ValueError | TypeError | ZeroDivisionError | ParseError | RequestException

subsection \<open>Characters, numbers and padding\<close>

definition in_range :: "char \<Rightarrow> char \<Rightarrow> char \<Rightarrow> bool" where
  "in_range lo hi c = ((of_char lo :: nat) \<le> of_char c \<and> (of_char c :: nat) \<le> of_char hi)"

definition is_digit :: "char \<Rightarrow> bool" where
  "is_digit c = in_range (CHR ''0'') (CHR ''9'') c"

definition digit_val :: "char \<Rightarrow> nat" where
  "digit_val c = of_char c - 48"

definition digit_char :: "nat \<Rightarrow> char" where
  "digit_char n = ''0123456789'' ! (n mod 10)"

text \<open>\<^verbatim>\<open>str(n)\<close> for a natural number and for an integer.\<close>

fun str_nat :: "nat \<Rightarrow> string" where
  "str_nat n = (if n < 10 then [digit_char n] else str_nat (n div 10) @ [digit_char n])"

declare str_nat.simps [simp del]

definition str_int :: "int \<Rightarrow> string" where
  "str_int i = (if i < 0 then CHR ''-'' # str_nat (nat (- i)) else str_nat (nat i))"

text \<open>The format specification \<^verbatim>\<open>:<w\<close> on a string: left-justified, padded with spaces.\<close>

definition ljust :: "nat \<Rightarrow> string \<Rightarrow> string" where
  "ljust w s = s @ replicate (w - length s) (CHR '' '')"

text \<open>
  The same specification on a value that may be \<^verbatim>\<open>None\<close>: \<^verbatim>\<open>format(None, '<15')\<close>
  raises \<^verbatim>\<open>TypeError\<close> (unsupported format string passed to NoneType).
\<close>

definition fmt_ljust :: "nat \<Rightarrow> string option \<Rightarrow> error + string" where
  "fmt_ljust w v = (case v of None \<Rightarrow> Inl TypeError | Some s \<Rightarrow> Inr (ljust w s))"

text \<open>A replacement field without a format specification: \<^verbatim>\<open>str(v)\<close>.\<close>

definition str_opt :: "string option \<Rightarrow> string" where
  "str_opt v = (case v of None \<Rightarrow> ''None'' | Some s \<Rightarrow> s)"

subsection \<open>Dates\<close>

text \<open>A naive \<^verbatim>\<open>datetime.datetime\<close>.\<close>

record datetime =
  year :: nat
  month :: nat
  day :: nat
  hour :: nat
  minute :: nat
  second :: nat
  microsecond :: nat

definition is_leap :: "nat \<Rightarrow> bool" where
  "is_leap y = (y mod 4 = 0 \<and> (y mod 100 \<noteq> 0 \<or> y mod 400 = 0))"

definition days_in_month :: "nat \<Rightarrow> nat \<Rightarrow> nat" where
  "days_in_month y m =
     (if m = 2 then (if is_leap y then 29 else 28)
      else if m = 4 \<or> m = 6 \<or> m = 9 \<or> m = 11 then 30 else 31)"

definition valid_datetime :: "datetime \<Rightarrow> bool" where
  "valid_datetime t =
     (1 \<le> year t \<and> year t \<le> 9999 \<and> 1 \<le> month t \<and> month t \<le> 12 \<and>
      1 \<le> day t \<and> day t \<le> days_in_month (year t) (month t) \<and>
      hour t \<le> 23 \<and> minute t \<le> 59 \<and> second t \<le> 59 \<and> microsecond t \<le> 999999)"

text \<open>The constructor \<^verbatim>\<open>datetime(y, m, d, H, M, S)\<close> raises \<^verbatim>\<open>ValueError\<close> on a field out of range.\<close>

definition mk_datetime :: "nat \<Rightarrow> nat \<Rightarrow> nat \<Rightarrow> nat \<Rightarrow> nat \<Rightarrow> nat \<Rightarrow> error + datetime" where
  "mk_datetime y m d H M S =
     (let t = \<lparr>year = y, month = m, day = d, hour = H, minute = M, second = S, microsecond = 0\<rparr>
      in if valid_datetime t then Inr t else Inl ValueError)"

text \<open>Comparison of two datetimes is the lexicographic comparison of their fields.\<close>

definition dt_key :: "datetime \<Rightarrow> nat \<times> nat \<times> nat \<times> nat \<times> nat \<times> nat \<times> nat" where
  "dt_key t = (year t, month t, day t, hour t, minute t, second t, microsecond t)"

text \<open>The proleptic Gregorian ordinal of a date (\<^verbatim>\<open>_ymd2ord\<close>), 1 for 0001-01-01.\<close>

definition days_before_year :: "nat \<Rightarrow> int" where
  "days_before_year y =
     (let p = int y - 1 in p * 365 + p div 4 - p div 100 + p div 400)"

text \<open>The days of the year before the first of a month (\<^verbatim>\<open>_days_before_month\<close>).\<close>

definition days_before_month :: "nat \<Rightarrow> nat \<Rightarrow> nat" where
  "days_before_month y m =
     (if m \<le> 1 then 0 else if m = 2 then 31 else if m = 3 then 59 else if m = 4 then 90
      else if m = 5 then 120 else if m = 6 then 151 else if m = 7 then 181
      else if m = 8 then 212 else if m = 9 then 243 else if m = 10 then 273
      else if m = 11 then 304 else 334)
     + (if 2 < m \<and> is_leap y then 1 else 0)"

definition toordinal :: "datetime \<Rightarrow> int" where
  "toordinal t = days_before_year (year t) + int (days_before_month (year t) (month t)) + int (day t)"

definition to_microseconds :: "datetime \<Rightarrow> int" where
  "to_microseconds t =
     ((toordinal t * 86400 + int (hour t) * 3600 + int (minute t) * 60 + int (second t)) * 1000000
        + int (microsecond t))"

text \<open>
  \<^verbatim>\<open>(a - b).days\<close>: the difference is a \<^verbatim>\<open>timedelta\<close>, normalised so that its seconds and
  microseconds are not negative; its \<^verbatim>\<open>days\<close> field is the floor of the difference in days.
\<close>

definition delta_days :: "datetime \<Rightarrow> datetime \<Rightarrow> int" where
  "delta_days a b = (to_microseconds a - to_microseconds b) div 86400000000"

subsection \<open>strptime\<close>

text \<open>
  \<^verbatim>\<open>datetime.strptime\<close> turns the format into a regular expression, matches it at the start
  of the string (ignoring case), refuses a match that does not consume the whole string, and
  builds the datetime from the matched groups. A regular expression is modelled by the list
  of its matches at the start of a string, in the order a backtracking matcher tries them:
  each match is the value of the matched text and the rest of the string.
\<close>

type_synonym 'a re = "string \<Rightarrow> ('a \<times> string) list"

definition re_class :: "char \<Rightarrow> char \<Rightarrow> nat re" where
  "re_class lo hi s = (case s of [] \<Rightarrow> [] | c # r \<Rightarrow> if in_range lo hi c then [(digit_val c, r)] else [])"

definition re_digit :: "nat re" where
  "re_digit = re_class (CHR ''0'') (CHR ''9'')"

definition re_lit :: "char \<Rightarrow> nat re" where
  "re_lit x s = (case s of [] \<Rightarrow> [] | c # r \<Rightarrow> if c = x then [(0, r)] else [])"

definition re_then :: "'a re \<Rightarrow> ('a \<Rightarrow> 'b re) \<Rightarrow> 'b re" where
  "re_then p k s = concat (map (\<lambda>(a, r). k a r) (p s))"

definition re_ret :: "'a \<Rightarrow> 'a re" where
  "re_ret a s = [(a, s)]"

definition re_alt :: "'a re \<Rightarrow> 'a re \<Rightarrow> 'a re" where
  "re_alt p q s = p s @ q s"

text \<open>Two characters read as a two-digit number (a space counts as 0, as \<^verbatim>\<open>int(' 5')\<close> is 5).\<close>

definition re_two :: "nat re \<Rightarrow> nat re \<Rightarrow> nat re" where
  "re_two p q = re_then p (\<lambda>a. re_then q (\<lambda>b. re_ret (10 * a + b)))"

text \<open>\<^verbatim>\<open>%m\<close> is \<^verbatim>\<open>1[0-2]|0[1-9]|[1-9]\<close>.\<close>

definition re_m :: "nat re" where
  "re_m = re_alt (re_two (re_class (CHR ''1'') (CHR ''1'')) (re_class (CHR ''0'') (CHR ''2'')))
         (re_alt (re_two (re_class (CHR ''0'') (CHR ''0'')) (re_class (CHR ''1'') (CHR ''9'')))
                 (re_class (CHR ''1'') (CHR ''9'')))"

text \<open>\<^verbatim>\<open>%d\<close> is \<^verbatim>\<open>3[0-1]|[1-2]\d|0[1-9]|[1-9]| [1-9]\<close>.\<close>

definition re_d :: "nat re" where
  "re_d = re_alt (re_two (re_class (CHR ''3'') (CHR ''3'')) (re_class (CHR ''0'') (CHR ''1'')))
         (re_alt (re_two (re_class (CHR ''1'') (CHR ''2'')) re_digit)
         (re_alt (re_two (re_class (CHR ''0'') (CHR ''0'')) (re_class (CHR ''1'') (CHR ''9'')))
         (re_alt (re_class (CHR ''1'') (CHR ''9''))
                 (re_two (re_lit (CHR '' '')) (re_class (CHR ''1'') (CHR ''9''))))))"

text \<open>\<^verbatim>\<open>%Y\<close> is \<^verbatim>\<open>\d\d\d\d\<close> and \<^verbatim>\<open>%y\<close> is \<^verbatim>\<open>\d\d\<close>.\<close>

definition re_Y :: "nat re" where
  "re_Y = re_then re_digit (\<lambda>a. re_then re_digit (\<lambda>b. re_then re_digit (\<lambda>c.
            re_then re_digit (\<lambda>d. re_ret (1000 * a + 100 * b + 10 * c + d)))))"

definition re_y :: "nat re" where
  "re_y = re_two re_digit re_digit"

text \<open>\<^verbatim>\<open>%H\<close> is \<^verbatim>\<open>2[0-3]|[0-1]\d|\d\<close>, \<^verbatim>\<open>%M\<close> is \<^verbatim>\<open>[0-5]\d|\d\<close>, \<^verbatim>\<open>%S\<close> is \<^verbatim>\<open>6[0-1]|[0-5]\d|\d\<close>.\<close>

definition re_H :: "nat re" where
  "re_H = re_alt (re_two (re_class (CHR ''2'') (CHR ''2'')) (re_class (CHR ''0'') (CHR ''3'')))
         (re_alt (re_two (re_class (CHR ''0'') (CHR ''1'')) re_digit) re_digit)"

definition re_M :: "nat re" where
  "re_M = re_alt (re_two (re_class (CHR ''0'') (CHR ''5'')) re_digit) re_digit"

definition re_S :: "nat re" where
  "re_S = re_alt (re_two (re_class (CHR ''6'') (CHR ''6'')) (re_class (CHR ''0'') (CHR ''1'')))
         (re_alt (re_two (re_class (CHR ''0'') (CHR ''5'')) re_digit) re_digit)"

text \<open>The four formats of \<^verbatim>\<open>parse_date\<close>, in its order.\<close>

datatype fmt = MDY4 | MDY2 | ISO_DATETIME | ISO_DATE

text \<open>The \<^verbatim>\<open>%y\<close> pivot: 00 to 68 are in the 2000s, 69 to 99 in the 1900s.\<close>

definition pivot_year :: "nat \<Rightarrow> nat" where
  "pivot_year y = (if y \<le> 68 then y + 2000 else y + 1900)"

type_synonym fields = "nat \<times> nat \<times> nat \<times> nat \<times> nat \<times> nat"

fun fmt_regex :: "fmt \<Rightarrow> fields re" where
  "fmt_regex MDY4 =
     re_then re_m (\<lambda>m. re_then (re_lit (CHR ''/'')) (\<lambda>_. re_then re_d (\<lambda>d.
     re_then (re_lit (CHR ''/'')) (\<lambda>_. re_then re_Y (\<lambda>y. re_ret (y, m, d, 0, 0, 0))))))"
| "fmt_regex MDY2 =
     re_then re_m (\<lambda>m. re_then (re_lit (CHR ''/'')) (\<lambda>_. re_then re_d (\<lambda>d.
     re_then (re_lit (CHR ''/'')) (\<lambda>_. re_then re_y (\<lambda>y. re_ret (pivot_year y, m, d, 0, 0, 0))))))"
| "fmt_regex ISO_DATETIME =
     re_then re_Y (\<lambda>y. re_then (re_lit (CHR ''-'')) (\<lambda>_. re_then re_m (\<lambda>m.
     re_then (re_lit (CHR ''-'')) (\<lambda>_. re_then re_d (\<lambda>d.
     re_then (re_alt (re_lit (CHR ''T'')) (re_lit (CHR ''t''))) (\<lambda>_. re_then re_H (\<lambda>H.
     re_then (re_lit (CHR '':'')) (\<lambda>_. re_then re_M (\<lambda>M.
     re_then (re_lit (CHR '':'')) (\<lambda>_. re_then re_S (\<lambda>S. re_ret (y, m, d, H, M, S))))))))))))"
| "fmt_regex ISO_DATE =
     re_then re_Y (\<lambda>y. re_then (re_lit (CHR ''-'')) (\<lambda>_. re_then re_m (\<lambda>m.
     re_then (re_lit (CHR ''-'')) (\<lambda>_. re_then re_d (\<lambda>d. re_ret (y, m, d, 0, 0, 0))))))"

definition strptime :: "string \<Rightarrow> fmt \<Rightarrow> error + datetime" where
  "strptime s f =
     (case fmt_regex f s of
        [] \<Rightarrow> Inl ValueError
      | ((y, m, d, H, M, S), rest) # _ \<Rightarrow>
          if rest \<noteq> [] then Inl ValueError else mk_datetime y m d H M S)"

subsection \<open>parse_date\<close>

text \<open>
  The loop over the formats: the first format whose \<^verbatim>\<open>strptime\<close> does not raise
  \<^verbatim>\<open>ValueError\<close> returns. Any other exception leaves the loop and is caught by the outer
  handler, which prints a line and returns \<^verbatim>\<open>None\<close>. The result is the pair of the lines
  printed and the value returned.
\<close>

fun try_formats :: "string \<Rightarrow> fmt list \<Rightarrow> string list \<times> datetime option" where
  "try_formats s [] = ([''Warning: Unable to parse date: '' @ s], None)"
| "try_formats s (f # fs) =
     (case strptime s f of
        Inr t \<Rightarrow> ([], Some t)
      | Inl ValueError \<Rightarrow> try_formats s fs
      | Inl e \<Rightarrow> ([''Error parsing date '' @ s], None))"

definition parse_date :: "string option \<Rightarrow> string list \<times> datetime option" where
  "parse_date date_str =
     (case date_str of
        None \<Rightarrow> ([], None)
      | Some s \<Rightarrow> if s = [] then ([], None)
                  else try_formats s [MDY4, MDY2, ISO_DATETIME, ISO_DATE])"

subsection \<open>The XML tree and ElementPath\<close>

text \<open>
  An \<^verbatim>\<open>xml.etree.ElementTree.Element\<close>: tag (with the namespace in braces), attributes,
  text (\<^verbatim>\<open>None\<close> when the element has none) and children in document order.
\<close>

datatype element =
  Element (tag: string) (attrib: "(string \<times> string) list") (etext: "string option")
    (children: "element list")

text \<open>\<^verbatim>\<open>elem.iter()\<close>: the element and all its descendants, in document order.\<close>

fun iter :: "element \<Rightarrow> element list" where
  "iter (Element t a x cs) = Element t a x cs # concat (map iter cs)"

definition descendants :: "element \<Rightarrow> element list" where
  "descendants e = concat (map iter (children e))"

text \<open>The prefix \<^verbatim>\<open>nc\<close> of the namespace map \<^verbatim>\<open>ns\<close>.\<close>

definition nc :: "string \<Rightarrow> string" where
  "nc local = ''{http://api.namecheap.com/xml.response}'' @ local"

text \<open>
  The steps of a path: \<^verbatim>\<open>.//tag\<close> selects the proper descendants with that tag,
  \<^verbatim>\<open>/tag\<close> the children with that tag, each for every element selected so far.
\<close>

definition select_descendant :: "string \<Rightarrow> element list \<Rightarrow> element list" where
  "select_descendant t es = concat (map (\<lambda>e. filter (\<lambda>x. tag x = t) (descendants e)) es)"

definition select_child :: "string \<Rightarrow> element list \<Rightarrow> element list" where
  "select_child t es = concat (map (\<lambda>e. filter (\<lambda>x. tag x = t) (children e)) es)"

text \<open>\<^verbatim>\<open>root.findall(".//nc:Errors/nc:Error", ns)\<close>\<close>

definition findall_errors :: "element \<Rightarrow> element list" where
  "findall_errors root = select_child (nc ''Error'') (select_descendant (nc ''Errors'') [root])"

text \<open>\<^verbatim>\<open>root.findall(".//nc:CommandResponse/nc:DomainGetListResult/nc:Domain", ns)\<close>\<close>

definition findall_domains :: "element \<Rightarrow> element list" where
  "findall_domains root =
     select_child (nc ''Domain'') (select_child (nc ''DomainGetListResult'')
       (select_descendant (nc ''CommandResponse'') [root]))"

text \<open>\<^verbatim>\<open>root.find(".//nc:CommandResponse/nc:Paging", ns)\<close>: the first match or \<^verbatim>\<open>None\<close>.\<close>

definition find_paging :: "element \<Rightarrow> element option" where
  "find_paging root =
     (case select_child (nc ''Paging'') (select_descendant (nc ''CommandResponse'') [root]) of
        [] \<Rightarrow> None | e # _ \<Rightarrow> Some e)"

text \<open>
  \<^verbatim>\<open>elem.findtext("nc:X", "Unknown", ns)\<close>: the text of the first child with that tag
  (the empty string when it has no text), the default when there is no such child.
\<close>

definition findtext :: "element \<Rightarrow> string \<Rightarrow> string \<Rightarrow> string" where
  "findtext e t dflt =
     (case select_child t [e] of
        [] \<Rightarrow> dflt
      | c # _ \<Rightarrow> (case etext c of None \<Rightarrow> [] | Some x \<Rightarrow> x))"

subsection \<open>get_domains\<close>

record domain =
  ID :: "string option"
  name :: "string option"
  user :: "string option"
  created :: "string option"
  expires :: "string option"
  is_expired :: bool
  is_locked :: bool
  auto_renew :: bool
  whois_guard :: "string option"
  is_premium :: bool
  is_our_dns :: bool
  expiry_date_obj :: "datetime option"

text \<open>
  The dictionary built for one \<^verbatim>\<open>Domain\<close> element. The key \<^verbatim>\<open>expiry_date_obj\<close> is added
  later by \<^verbatim>\<open>display_domains\<close>, which writes it before reading it; it starts as \<^verbatim>\<open>None\<close>.
\<close>

definition domain_info :: "element \<Rightarrow> domain" where
  "domain_info e =
     (let a = map_of (attrib e) in
      \<lparr>ID = a ''ID'', name = a ''Name'', user = a ''User'', created = a ''Created'',
       expires = a ''Expires'',
       is_expired = (a ''IsExpired'' = Some ''true''),
       is_locked = (a ''IsLocked'' = Some ''true''),
       auto_renew = (a ''AutoRenew'' = Some ''true''),
       whois_guard = a ''WhoisGuard'',
       is_premium = (a ''IsPremium'' = Some ''true''),
       is_our_dns = (a ''IsOurDNS'' = Some ''true''),
       expiry_date_obj = None\<rparr>)"

text \<open>The environment variables read at import time; each may be unset.\<close>

record env =
  API_KEY :: "string option"
  API_USER :: "string option"
  CLIENT_IP :: "string option"

record response =
  status_code :: int
  body :: string

text \<open>
  What a run can change: the console (one entry for each call of \<^verbatim>\<open>print\<close>, oldest first)
  and the files of the working directory.
\<close>

record world =
  stdout :: "string list"
  files :: "string \<rightharpoonup> string"

definition print :: "string list \<Rightarrow> world \<Rightarrow> world" where
  "print ls w = w\<lparr>stdout := stdout w @ ls\<rparr>"

definition write_file :: "string \<Rightarrow> string \<Rightarrow> world \<Rightarrow> world" where
  "write_file path content w = w\<lparr>files := (files w)(path \<mapsto> content)\<rparr>"

definition param_lines :: "env \<Rightarrow> string list" where
  "param_lines ev =
     [''ApiUser: '' @ str_opt (API_USER ev),
      ''ApiKey: ********'',
      ''UserName: '' @ str_opt (API_USER ev),
      ''Command: namecheap.domains.getList'',
      ''ClientIp: '' @ str_opt (CLIENT_IP ev),
      ''ListType: ALL'',
      ''Page: 1'',
      ''PageSize: 100'',
      ''SortBy: EXPIREDATE'']"

definition error_line :: "element \<Rightarrow> string" where
  "error_line e =
     ''API Error '' @ (case map_of (attrib e) ''Number'' of None \<Rightarrow> ''Unknown'' | Some n \<Rightarrow> n)
       @ '': '' @ str_opt (etext e)"

definition paging_lines :: "element \<Rightarrow> string list" where
  "paging_lines root =
     (case find_paging root of
        None \<Rightarrow> []
      | Some p \<Rightarrow>
          [''Paging: Total Items: '' @ findtext p (nc ''TotalItems'') ''Unknown''
            @ '', Current Page: '' @ findtext p (nc ''CurrentPage'') ''Unknown''
            @ '', Page Size: '' @ findtext p (nc ''PageSize'') ''Unknown''])"

text \<open>
  \<^verbatim>\<open>get_domains\<close>. The two library calls are inputs of the model: \<open>reply\<close> is what
  \<^verbatim>\<open>requests.get\<close> gives (a response, or an exception that the function does not catch),
  and \<open>fromstring\<close> is \<^verbatim>\<open>ET.fromstring\<close>, \<open>None\<close> where it raises \<^verbatim>\<open>ParseError\<close>.
  The result is the world after the call and the value returned or the exception raised.
\<close>

definition get_domains ::
  "(string \<Rightarrow> element option) \<Rightarrow> env \<Rightarrow> error + response \<Rightarrow> world \<Rightarrow> world \<times> (error + domain list)"
where
  "get_domains fromstring ev reply w =
     (let w1 = print (''Making API request with parameters:'' # param_lines ev) w in
      case reply of
        Inl e \<Rightarrow> (w1, Inl e)
      | Inr r \<Rightarrow>
          let w2 = print [CHR 0x0A # ''API Response Status Code: '' @ str_int (status_code r)] w1 in
          if status_code r \<noteq> 200 then
            (print [''Error: '' @ str_int (status_code r), body r] w2, Inr [])
          else
            let w3 = print [''Response saved to api_response.xml for debugging'']
                       (write_file ''api_response.xml'' (body r) w2) in
            case fromstring (body r) of
              None \<Rightarrow> (w3, Inl ParseError)
            | Some root \<Rightarrow>
                if map_of (attrib root) ''Status'' \<noteq> Some ''OK'' then
                  (print (map error_line (findall_errors root)) w3, Inr [])
                else
                  let domain_elements = findall_domains root;
                      w4 = print [''Found '' @ str_nat (length domain_elements)
                                    @ '' domains in response''] w3;
                      domains = map domain_info domain_elements
                  in (print (paging_lines root) w4, Inr domains))"

subsection \<open>display_domains: the sorted listing\<close>

text \<open>
  The first loop attaches the parsed expiry date to every record and prints the warnings
  of \<^verbatim>\<open>parse_date\<close>; both of its branches append the record.
\<close>

fun attach_dates :: "domain list \<Rightarrow> string list \<times> domain list" where
  "attach_dates [] = ([], [])"
| "attach_dates (d # ds) =
     (let (warn, t) = parse_date (expires d);
          (warns, ds') = attach_dates ds
      in (warn @ warns, d\<lparr>expiry_date_obj := t\<rparr> # ds'))"

text \<open>
  The sort key \<^verbatim>\<open>x["expiry_date_obj"]\<close>. It is applied to records with a date only; the
  value at \<^verbatim>\<open>None\<close> is never used.
\<close>

definition expiry_key :: "domain \<Rightarrow> nat \<times> nat \<times> nat \<times> nat \<times> nat \<times> nat \<times> nat" where
  "expiry_key d = (case expiry_date_obj d of Some t \<Rightarrow> dt_key t | None \<Rightarrow> (0, 0, 0, 0, 0, 0, 0))"

text \<open>\<^verbatim>\<open>sorted\<close> is a stable sort, as \<open>sort_key\<close> is.\<close>

definition sort_domains :: "domain list \<Rightarrow> domain list" where
  "sort_domains ds =
     (let valid_dates = filter (\<lambda>d. expiry_date_obj d \<noteq> None) ds;
          invalid_dates = filter (\<lambda>d. expiry_date_obj d = None) ds
      in sort_key expiry_key valid_dates @ invalid_dates)"

definition or_na :: "string option \<Rightarrow> string" where
  "or_na v = (case v of None \<Rightarrow> ''N/A'' | Some s \<Rightarrow> if s = [] then ''N/A'' else s)"

definition yes_no :: "bool \<Rightarrow> string" where
  "yes_no b = (if b then ''Yes'' else ''No'')"

text \<open>The expiry column of a row: the raw date and its annotation.\<close>

definition expiry_text :: "datetime \<Rightarrow> domain \<Rightarrow> string" where
  "expiry_text today d =
     (let expiry_date = or_na (expires d) in
      case expiry_date_obj d of
        None \<Rightarrow> expiry_date
      | Some t \<Rightarrow>
          let days = delta_days t today;
              days_left = ''('' @ str_int days @ '' days left)''
          in if 0 < days \<and> days \<le> 30 then expiry_date @ '' '' @ days_left @ '' - RENEW SOON!''
             else if days \<le> 0 then expiry_date @ '' - EXPIRED!''
             else expiry_date @ '' '' @ days_left)"

text \<open>
  One row of the listing. The fields are formatted from left to right; a field that is
  \<^verbatim>\<open>None\<close> under a width specification raises \<^verbatim>\<open>TypeError\<close>.
\<close>

definition row :: "datetime \<Rightarrow> domain \<Rightarrow> error + string" where
  "row today d =
     (case fmt_ljust 30 (name d) of
        Inl e \<Rightarrow> Inl e
      | Inr n \<Rightarrow>
          (case fmt_ljust 15 (whois_guard d) of
             Inl e \<Rightarrow> Inl e
           | Inr g \<Rightarrow>
               Inr (n @ '' '' @ ljust 20 (expiry_text today d) @ '' '' @ ljust 20 (or_na (created d))
                      @ '' '' @ ljust 12 (yes_no (auto_renew d)) @ '' ''
                      @ ljust 10 (yes_no (is_locked d)) @ '' '' @ g)))"

text \<open>A loop that prints one line for each record and stops at the first exception.\<close>

fun print_each :: "('a \<Rightarrow> error + string) \<Rightarrow> 'a list \<Rightarrow> string list \<times> error option" where
  "print_each f [] = ([], None)"
| "print_each f (x # xs) =
     (case f x of
        Inl e \<Rightarrow> ([], Some e)
      | Inr l \<Rightarrow> (let (ls, r) = print_each f xs in (l # ls, r)))"

subsection \<open>display_domains: upcoming renewals\<close>

definition upcoming :: "datetime \<Rightarrow> domain list \<Rightarrow> domain list" where
  "upcoming today sorted_domains =
     filter (\<lambda>d. case expiry_date_obj d of
                   None \<Rightarrow> False
                 | Some t \<Rightarrow> 0 < delta_days t today \<and> delta_days t today \<le> 90) sorted_domains"

definition upcoming_row :: "datetime \<Rightarrow> domain \<Rightarrow> error + string" where
  "upcoming_row today d =
     (case fmt_ljust 30 (name d) of
        Inl e \<Rightarrow> Inl e
      | Inr n \<Rightarrow>
          (case fmt_ljust 20 (expires d) of
             Inl e \<Rightarrow> Inl e
           | Inr x \<Rightarrow>
               Inr (n @ '' '' @ x @ '' ''
                      @ ljust 10 (str_int (delta_days (case expiry_date_obj d of Some t \<Rightarrow> t | None \<Rightarrow> today) today))
                      @ '' '' @ yes_no (auto_renew d))))"

definition upcoming_view :: "datetime \<Rightarrow> domain list \<Rightarrow> string list \<times> error option" where
  "upcoming_view today sorted_domains =
     (let up = upcoming today sorted_domains in
      if up \<noteq> [] then
        (let (ls, r) = print_each (upcoming_row today) up
         in ([CHR 0x0A # ljust 30 ''Domain Name'' @ '' '' @ ljust 20 ''Expiry Date'' @ '' ''
                @ ljust 10 ''Days Left'' @ '' Auto Renew'', replicate 75 (CHR ''-'')] @ ls, r))
      else ([''No domains expiring in the next 90 days.''], None))"

subsection \<open>display_domains: statistics\<close>

text \<open>
  \<^verbatim>\<open>f"{n/total*100:.1f}"\<close>. The division raises \<^verbatim>\<open>ZeroDivisionError\<close> when
  \<^verbatim>\<open>total\<close> is 0. The quotient is a floating-point number; its text with one decimal is
  the input \<open>fmt1f\<close> of the model, applied to the count and the total.
\<close>

definition percent_text :: "(nat \<Rightarrow> nat \<Rightarrow> string) \<Rightarrow> nat \<Rightarrow> nat \<Rightarrow> error + string" where
  "percent_text fmt1f n tot =
     (if tot = 0 then Inl ZeroDivisionError else Inr (fmt1f n tot))"

definition stat_line :: "(nat \<Rightarrow> nat \<Rightarrow> string) \<Rightarrow> string \<Rightarrow> nat \<Rightarrow> nat \<Rightarrow> error + string" where
  "stat_line fmt1f label n tot =
     (case percent_text fmt1f n tot of
        Inl e \<Rightarrow> Inl e
      | Inr p \<Rightarrow> Inr (label @ str_nat n @ '' ('' @ p @ ''% of all domains)''))"

definition statistics_view :: "(nat \<Rightarrow> nat \<Rightarrow> string) \<Rightarrow> domain list \<Rightarrow> string list \<times> error option" where
  "statistics_view fmt1f domains =
     (let tot = length domains;
          auto_renew_n = length (filter auto_renew domains);
          locked = length (filter is_locked domains);
          whois_guard_enabled = length (filter (\<lambda>d. whois_guard d = Some ''ENABLED'') domains);
          (ls, r) = print_each (\<lambda>(label, n). stat_line fmt1f label n tot)
                      [(''Auto-renew enabled: '', auto_renew_n),
                       (''Locked domains: '', locked),
                       (''WHOIS guard enabled: '', whois_guard_enabled)]
      in ((''Total domains: '' @ str_nat tot) # ls, r))"

subsection \<open>display_domains: the calendar\<close>

definition month_name :: "nat \<Rightarrow> string" where
  "month_name m =
     (if m = 1 then ''January'' else if m = 2 then ''February'' else if m = 3 then ''March''
      else if m = 4 then ''April'' else if m = 5 then ''May'' else if m = 6 then ''June''
      else if m = 7 then ''July'' else if m = 8 then ''August'' else if m = 9 then ''September''
      else if m = 10 then ''October'' else if m = 11 then ''November''
      else if m = 12 then ''December'' else [])"

text \<open>
  \<^verbatim>\<open>t.strftime("%B %Y")\<close> in the C locale: the full English month name and the year as
  the C library prints it, a decimal number without padding (\<^verbatim>\<open>999\<close> for the year 999).
\<close>

definition strftime_BY :: "datetime \<Rightarrow> string" where
  "strftime_BY t = month_name (month t) @ '' '' @ str_nat (year t)"

text \<open>
  \<^verbatim>\<open>domains_by_month[month_year].append(domain)\<close> on a \<^verbatim>\<open>defaultdict(list)\<close>: a dictionary
  keeps its keys in the order of their first insertion.
\<close>

fun group_add :: "string \<Rightarrow> 'a \<Rightarrow> (string \<times> 'a list) list \<Rightarrow> (string \<times> 'a list) list" where
  "group_add k v [] = [(k, [v])]"
| "group_add k v ((k', vs) # g) =
     (if k = k' then (k', vs @ [v]) # g else (k', vs) # group_add k v g)"

fun group_by_month :: "domain list \<Rightarrow> (string \<times> domain list) list \<Rightarrow> (string \<times> domain list) list" where
  "group_by_month [] g = g"
| "group_by_month (d # ds) g =
     (case expiry_date_obj d of
        Some t \<Rightarrow> group_by_month ds (group_add (strftime_BY t) d g)
      | None \<Rightarrow> group_by_month ds g)"

definition month_map :: "(string \<times> nat) list" where
  "month_map =
     [(''January'', 1), (''February'', 2), (''March'', 3), (''April'', 4),
      (''May'', 5), (''June'', 6), (''July'', 7), (''August'', 8),
      (''September'', 9), (''October'', 10), (''November'', 11), (''December'', 12)]"

text \<open>The white space of \<^verbatim>\<open>str.split()\<close> and \<^verbatim>\<open>int()\<close> among the code points below 256.\<close>

definition is_space :: "char \<Rightarrow> bool" where
  "is_space c = ((of_char c :: nat) \<in> {9, 10, 11, 12, 13, 28, 29, 30, 31, 32, 133, 160})"

text \<open>\<^verbatim>\<open>s.split()\<close>: the maximal runs of characters that are not white space.\<close>

fun split_ws :: "string \<Rightarrow> string \<Rightarrow> string list" where
  "split_ws cur [] = (if cur = [] then [] else [cur])"
| "split_ws cur (c # cs) =
     (if is_space c then (if cur = [] then split_ws [] cs else cur # split_ws [] cs)
      else split_ws (cur @ [c]) cs)"

definition py_split :: "string \<Rightarrow> string list" where
  "py_split s = split_ws [] s"

text \<open>
  \<^verbatim>\<open>int(s)\<close>, \<open>None\<close> where it raises \<^verbatim>\<open>ValueError\<close>: white space around, an optional sign,
  decimal digits with single underscores between them, and at most 4300 digits.
\<close>

fun int_digits :: "nat \<Rightarrow> string \<Rightarrow> nat option" where
  "int_digits acc [] = Some acc"
| "int_digits acc (c # cs) =
     (if is_digit c then int_digits (10 * acc + digit_val c) cs
      else if c = CHR ''_'' then
        (case cs of
           [] \<Rightarrow> None
         | d # ds \<Rightarrow> if is_digit d then int_digits (10 * acc + digit_val d) ds else None)
      else None)"

definition strip :: "string \<Rightarrow> string" where
  "strip s = rev (dropWhile is_space (rev (dropWhile is_space s)))"

definition unsigned_int :: "string \<Rightarrow> nat option" where
  "unsigned_int s =
     (case s of
        [] \<Rightarrow> None
      | d # ds \<Rightarrow>
          if is_digit d \<and> length (filter is_digit s) \<le> 4300 then int_digits (digit_val d) ds
          else None)"

definition py_int :: "string \<Rightarrow> int option" where
  "py_int s =
     (case strip s of
        [] \<Rightarrow> None
      | c # cs \<Rightarrow>
          if c = CHR ''-'' then map_option (\<lambda>n. - int n) (unsigned_int cs)
          else if c = CHR ''+'' then map_option int (unsigned_int cs)
          else map_option int (unsigned_int (c # cs)))"

definition month_year_key :: "string \<Rightarrow> int \<times> nat" where
  "month_year_key month_year_str =
     (case py_split month_year_str of
        [mname, year_str] \<Rightarrow>
          (case py_int year_str of
             None \<Rightarrow> (9999, 13)
           | Some y \<Rightarrow> (y, (case map_of month_map mname of None \<Rightarrow> 13 | Some n \<Rightarrow> n)))
      | _ \<Rightarrow> (9999, 13))"

text \<open>The groups in the order they are printed.\<close>

definition calendar_groups :: "domain list \<Rightarrow> (string \<times> domain list) list" where
  "calendar_groups sorted_domains =
     (let domains_by_month = group_by_month sorted_domains [] in
      map (\<lambda>k. (k, (case map_of domains_by_month k of None \<Rightarrow> [] | Some ds \<Rightarrow> ds)))
        (sort_key month_year_key (map fst domains_by_month)))"

definition calendar_view :: "domain list \<Rightarrow> string list" where
  "calendar_view sorted_domains =
     concat (map (\<lambda>(month_year, ds).
                    (CHR 0x0A # month_year @ '':'')
                    # map (\<lambda>d. ''  - '' @ str_opt (name d) @ '' (Expires: ''
                                 @ str_opt (expires d) @ '')'') ds)
              (calendar_groups sorted_domains))"

subsection \<open>display_domains\<close>

text \<open>Two parts of the report in sequence: an exception in the first ends the run.\<close>

definition and_then ::
  "string list \<times> error option \<Rightarrow> string list \<times> error option \<Rightarrow> string list \<times> error option" where
  "and_then a b = (case snd a of Some e \<Rightarrow> a | None \<Rightarrow> (fst a @ fst b, snd b))"

text \<open>
  \<^verbatim>\<open>display_domains\<close>: the lines printed and the exception raised, if any. \<open>today\<close> is the
  value of \<^verbatim>\<open>datetime.now()\<close>, read once after the sort.
\<close>

definition display_domains ::
  "(nat \<Rightarrow> nat \<Rightarrow> string) \<Rightarrow> domain list \<Rightarrow> datetime \<Rightarrow> string list \<times> error option" where
  "display_domains fmt1f domains today =
     (if domains = [] then
        ([''No domains found. Please check your API credentials and parameters.''], None)
      else
        let (warns, ds) = attach_dates domains;
            sorted_domains = sort_domains ds
        in and_then
             ([CHR 0x0A # ''Total domains: '' @ str_nat (length domains),
               CHR 0x0A # ljust 30 ''Domain Name'' @ '' '' @ ljust 20 ''Expiry Date'' @ '' ''
                 @ ljust 20 ''Created Date'' @ '' '' @ ljust 12 ''Auto Renew'' @ '' ''
                 @ ljust 10 ''Is Locked'' @ '' '' @ ljust 15 ''WHOIS Guard'',
               replicate 120 (CHR ''-'')] @ warns, None)
          (and_then (print_each (row today) sorted_domains)
          (and_then ([CHR 0x0A # ''--- Upcoming Renewals (next 90 days) ---''], None)
          (and_then (upcoming_view today sorted_domains)
          (and_then ([CHR 0x0A # ''--- Domain Statistics ---''], None)
          (and_then (statistics_view fmt1f ds)
             ((CHR 0x0A # ''--- Domain Renewal Calendar ---'') # calendar_view sorted_domains,
              None)))))))"

subsection \<open>Example data\<close>

text \<open>
  A small account used to evaluate the model: an environment, an empty world, a successful
  response with two domains, a response with an API error, and a parser that maps the two
  response bodies to their trees.
\<close>

definition ex_env :: env where
  "ex_env = \<lparr>API_KEY = Some ''key'', API_USER = Some ''user'', CLIENT_IP = Some ''192.0.2.1''\<rparr>"

definition ex_world :: world where
  "ex_world = \<lparr>stdout = [], files = Map.empty\<rparr>"

definition ex_domain1 :: element where
  "ex_domain1 =
     Element (nc ''Domain'')
       [(''ID'', ''127''), (''Name'', ''example.com''), (''User'', ''user''),
        (''Created'', ''02/15/2016''), (''Expires'', ''02/15/2027''), (''IsExpired'', ''false''),
        (''IsLocked'', ''True''), (''AutoRenew'', ''true''), (''WhoisGuard'', ''ENABLED''),
        (''IsPremium'', ''TRUE''), (''IsOurDNS'', ''true'')] None []"

definition ex_domain2 :: element where
  "ex_domain2 =
     Element (nc ''Domain'')
       [(''ID'', ''381''), (''Name'', ''example.org''), (''Expires'', ''2026-11-20''),
        (''IsLocked'', ''true'')] None []"

definition ex_ok_root :: element where
  "ex_ok_root =
     Element (nc ''ApiResponse'') [(''Status'', ''OK'')] None
       [Element (nc ''Errors'') [] None [],
        Element (nc ''CommandResponse'') [(''Type'', ''namecheap.domains.getList'')] None
          [Element (nc ''DomainGetListResult'') [] None [ex_domain1, ex_domain2],
           Element (nc ''Paging'') [] None
             [Element (nc ''TotalItems'') [] (Some ''2'') [],
              Element (nc ''CurrentPage'') [] (Some ''1'') [],
              Element (nc ''PageSize'') [] (Some ''100'') []]]]"

definition ex_error1 :: element where
  "ex_error1 = Element (nc ''Error'') [(''Number'', ''1011102'')] (Some ''API Key is invalid'') []"

definition ex_error2 :: element where
  "ex_error2 = Element (nc ''Error'') [] None []"

definition ex_err_root :: element where
  "ex_err_root =
     Element (nc ''ApiResponse'') [(''Status'', ''ERROR'')] None
       [Element (nc ''Errors'') [] None [ex_error1, ex_error2],
        Element (nc ''CommandResponse'') [] None []]"

definition ex_fromstring :: "string \<Rightarrow> element option" where
  "ex_fromstring s =
     (if s = ''ok-body'' then Some ex_ok_root
      else if s = ''error-body'' then Some ex_err_root else None)"

definition ex_ok_response :: response where
  "ex_ok_response = \<lparr>status_code = 200, body = ''ok-body''\<rparr>"

definition ex_err_response :: response where
  "ex_err_response = \<lparr>status_code = 200, body = ''error-body''\<rparr>"

definition ex_500_response :: response where
  "ex_500_response = \<lparr>status_code = 500, body = ''Internal Server Error''\<rparr>"

definition ex_record1 :: domain where
  "ex_record1 = domain_info ex_domain1"

definition ex_record2 :: domain where
  "ex_record2 = domain_info ex_domain2"

text \<open>A report time, and a stand-in for the formatting of a percentage.\<close>

definition ex_today :: datetime where
  "ex_today = \<lparr>year = 2026, month = 11, day = 4, hour = 9, minute = 30, second = 0, microsecond = 0\<rparr>"

definition ex_fmt1f :: "nat \<Rightarrow> nat \<Rightarrow> string" where
  "ex_fmt1f n tot = str_nat (n * 100 div tot) @ ''.0''"

text \<open>Records as \<^verbatim>\<open>get_domains\<close> builds them, with a name and an expiry string.\<close>

definition ex_rec :: "string \<Rightarrow> string \<Rightarrow> domain" where
  "ex_rec n x =
     \<lparr>ID = Some ''127'', name = Some n, user = Some ''user'', created = Some ''02/15/2016'',
      expires = Some x, is_expired = False, is_locked = True, auto_renew = True,
      whois_guard = Some ''ENABLED'', is_premium = False, is_our_dns = True,
      expiry_date_obj = None\<rparr>"

definition ex_midnight :: "nat \<Rightarrow> nat \<Rightarrow> nat \<Rightarrow> datetime" where
  "ex_midnight y m d =
     \<lparr>year = y, month = m, day = d, hour = 0, minute = 0, second = 0, microsecond = 0\<rparr>"

definition ex_domains :: "domain list" where
  "ex_domains =
     [ex_rec ''far.example'' ''02/15/2027'',
      ex_rec ''junk.example'' ''junk'',
      ex_rec ''soon.example'' ''2026-11-20'',
      ex_rec ''past.example'' ''03/05/2025'',
      ex_rec ''edge90.example'' ''02/03/2027'',
      ex_rec ''twin.example'' ''11/20/26'',
      ex_rec ''edge0.example'' ''11/05/2026'']"

text \<open>An example record with its parsed date attached.\<close>

definition ex_dated :: "string \<Rightarrow> string \<Rightarrow> datetime option \<Rightarrow> domain" where
  "ex_dated n x t = (ex_rec n x)\<lparr>expiry_date_obj := t\<rparr>"


subsection \<open>Notions used in the statements\<close>

text \<open>The world once a response with status 200 has been saved.\<close>

definition saved :: "env \<Rightarrow> response \<Rightarrow> world \<Rightarrow> world" where
  "saved ev r w =
     print [''Response saved to api_response.xml for debugging'']
       (write_file ''api_response.xml'' (body r)
          (print [CHR 0x0A # ''API Response Status Code: '' @ str_int (status_code r)]
             (print (''Making API request with parameters:'' # param_lines ev) w)))"

text \<open>Each boolean field of a record is true exactly when its attribute is the string \<^verbatim>\<open>true\<close>.\<close>

text \<open>
  The records as the report sees them: each with its parsed expiry date attached, and in
  the order of the sorted listing (the variable \<^verbatim>\<open>sorted_domains\<close>).
\<close>

definition with_date :: "domain \<Rightarrow> domain" where
  "with_date d = d\<lparr>expiry_date_obj := snd (parse_date (expires d))\<rparr>"

definition listing :: "domain list \<Rightarrow> domain list" where
  "listing domains = sort_domains (snd (attach_dates domains))"

text \<open>The three lines printed above the listing.\<close>

definition table_header :: "domain list \<Rightarrow> string list" where
  "table_header domains =
     [CHR 0x0A # ''Total domains: '' @ str_nat (length domains),
      CHR 0x0A # ljust 30 ''Domain Name'' @ '' '' @ ljust 20 ''Expiry Date'' @ '' ''
        @ ljust 20 ''Created Date'' @ '' '' @ ljust 12 ''Auto Renew'' @ '' ''
        @ ljust 10 ''Is Locked'' @ '' '' @ ljust 15 ''WHOIS Guard'',
      replicate 120 (CHR ''-'')]"

text \<open>
  A group of the calendar is not empty, and each of its records has a valid parsed date whose
  month and year give the label.
\<close>

definition labelled :: "string \<times> domain list \<Rightarrow> bool" where
  "labelled g = (snd g \<noteq> [] \<and>
     (\<forall>d \<in> set (snd g). \<exists>t. expiry_date_obj d = Some t \<and> valid_datetime t \<and> fst g = strftime_BY t))"



text \<open>A printed row carries the name of its record and the annotated expiry column.\<close>

definition annotated :: "datetime \<Rightarrow> domain \<Rightarrow> string \<Rightarrow> bool" where
  "annotated today d l =
     ((\<exists>n rest. name d = Some n \<and>
         l = ljust 30 n @ '' '' @ ljust 20 (expiry_text today d) @ rest) \<and>
      (\<forall>t. expiry_date_obj d = Some t \<longrightarrow>
         (0 < delta_days t today \<and> delta_days t today \<le> 30 \<longrightarrow>
            expiry_text today d =
              or_na (expires d) @ '' ('' @ str_int (delta_days t today) @ '' days left) - RENEW SOON!'') \<and>
         (delta_days t today \<le> 0 \<longrightarrow> expiry_text today d = or_na (expires d) @ '' - EXPIRED!'') \<and>
         (30 < delta_days t today \<longrightarrow>
            expiry_text today d =
              or_na (expires d) @ '' ('' @ str_int (delta_days t today) @ '' days left)'') \<and>
         suffix ''RENEW SOON!'' (expiry_text today d)
           = (0 < delta_days t today \<and> delta_days t today \<le> 30) \<and>
         suffix ''EXPIRED!'' (expiry_text today d) = (delta_days t today \<le> 0)))"

text \<open>A record has a parsed date and its days to expiry are in the window from 1 to 90.\<close>

definition in_window :: "datetime \<Rightarrow> domain \<Rightarrow> bool" where
  "in_window today d =
     (\<exists>t. expiry_date_obj d = Some t \<and> 0 < delta_days t today \<and> delta_days t today \<le> 90)"

text \<open>What two records are compared by: the parsed date, or nothing.\<close>

definition parsed_key :: "domain \<Rightarrow> (nat \<times> nat \<times> nat \<times> nat \<times> nat \<times> nat \<times> nat) option" where
  "parsed_key d = map_option dt_key (expiry_date_obj d)"

definition bool_fields_agree :: "element \<Rightarrow> domain \<Rightarrow> bool" where
  "bool_fields_agree e d =
     (is_expired d = (map_of (attrib e) ''IsExpired'' = Some ''true'') \<and>
      is_locked d = (map_of (attrib e) ''IsLocked'' = Some ''true'') \<and>
      auto_renew d = (map_of (attrib e) ''AutoRenew'' = Some ''true'') \<and>
      is_premium d = (map_of (attrib e) ''IsPremium'' = Some ''true'') \<and>
      is_our_dns d = (map_of (attrib e) ''IsOurDNS'' = Some ''true''))"

section \<open>Properties\<close>

subsection \<open>get_domains\<close>

lemma get_domains_not_200:
  "status_code r \<noteq> 200 \<Longrightarrow>
   get_domains fromstring ev (Inr r) w =
     (print [''Error: '' @ str_int (status_code r), body r]
        (print [CHR 0x0A # ''API Response Status Code: '' @ str_int (status_code r)]
           (print (''Making API request with parameters:'' # param_lines ev) w)), Inr [])"
  by (simp add: get_domains_def Let_def)

lemma get_domains_parse_error:
  "status_code r = 200 \<Longrightarrow> fromstring (body r) = None \<Longrightarrow>
   get_domains fromstring ev (Inr r) w = (saved ev r w, Inl ParseError)"
  by (simp add: get_domains_def Let_def saved_def)

lemma get_domains_api_error:
  "status_code r = 200 \<Longrightarrow> fromstring (body r) = Some root \<Longrightarrow>
   map_of (attrib root) ''Status'' \<noteq> Some ''OK'' \<Longrightarrow>
   get_domains fromstring ev (Inr r) w =
     (print (map error_line (findall_errors root)) (saved ev r w), Inr [])"
  by (simp add: get_domains_def Let_def saved_def)

lemma get_domains_ok:
  "status_code r = 200 \<Longrightarrow> fromstring (body r) = Some root \<Longrightarrow>
   map_of (attrib root) ''Status'' = Some ''OK'' \<Longrightarrow>
   get_domains fromstring ev (Inr r) w =
     (print (paging_lines root)
        (print [''Found '' @ str_nat (length (findall_domains root)) @ '' domains in response'']
           (saved ev r w)),
      Inr (map domain_info (findall_domains root)))"
  by (simp add: get_domains_def Let_def saved_def)

lemma files_print [simp]: "files (print ls w) = files w"
  by (simp add: print_def)

lemma stdout_print [simp]: "stdout (print ls w) = stdout w @ ls"
  by (simp add: print_def)

lemma files_write_file [simp]: "files (write_file p c w) = (files w)(p \<mapsto> c)"
  by (simp add: write_file_def)

lemma stdout_write_file [simp]: "stdout (write_file p c w) = stdout w"
  by (simp add: write_file_def)

lemma files_saved: "files (saved ev r w) = (files w)(''api_response.xml'' \<mapsto> body r)"
  by (simp add: saved_def)

lemma findall_domains_ex: "findall_domains ex_ok_root = [ex_domain1, ex_domain2]"
  by (simp add: findall_domains_def select_child_def select_descendant_def descendants_def
      ex_ok_root_def ex_domain1_def ex_domain2_def nc_def)

lemma findall_errors_ex: "findall_errors ex_err_root = [ex_error1, ex_error2]"
  by (simp add: findall_errors_def select_child_def select_descendant_def descendants_def
      ex_err_root_def ex_error1_def ex_error2_def nc_def)

lemma list_all2_map_same: "(\<And>x. x \<in> set xs \<Longrightarrow> P x (f x)) \<Longrightarrow> list_all2 P xs (map f xs)"
  by (induction xs) auto

text \<open>
  C10. For a response with status 200 whose tree has \<^verbatim>\<open>Status="OK"\<close>, \<^verbatim>\<open>get_domains\<close>
  returns one record for each \<^verbatim>\<open>Domain\<close> element, in order, and each of the five boolean
  fields of a record is true if and only if the attribute of its element is present and is
  the literal string \<^verbatim>\<open>true\<close>. In the example \<^verbatim>\<open>IsLocked="True"\<close> and
  \<^verbatim>\<open>IsPremium="TRUE"\<close> give false, as an absent attribute does.
\<close>

theorem boolean_fields_literal_true:
  assumes "status_code r = 200" and "fromstring (body r) = Some root"
    and "map_of (attrib root) ''Status'' = Some ''OK''"
  shows "\<exists>ds. snd (get_domains fromstring ev (Inr r) w) = Inr ds \<and>
           list_all2 bool_fields_agree (findall_domains root) ds"
  using assms
  by (simp add: get_domains_ok list_all2_map_same bool_fields_agree_def domain_info_def Let_def)

theorem boolean_fields_literal_true_witness:
  "status_code ex_ok_response = 200 \<and> ex_fromstring (body ex_ok_response) = Some ex_ok_root \<and>
   map_of (attrib ex_ok_root) ''Status'' = Some ''OK'' \<and>
   (\<exists>ds. snd (get_domains ex_fromstring ex_env (Inr ex_ok_response) ex_world) = Inr ds \<and>
      list_all2 bool_fields_agree (findall_domains ex_ok_root) ds) \<and>
   map is_locked (map domain_info (findall_domains ex_ok_root)) = [False, True] \<and>
   map is_premium (map domain_info (findall_domains ex_ok_root)) = [False, False] \<and>
   map auto_renew (map domain_info (findall_domains ex_ok_root)) = [True, False]"
proof -
  have h1: "status_code ex_ok_response = 200"
    by (simp add: ex_ok_response_def)
  have h2: "ex_fromstring (body ex_ok_response) = Some ex_ok_root"
    by (simp add: ex_ok_response_def ex_fromstring_def)
  have h3: "map_of (attrib ex_ok_root) ''Status'' = Some ''OK''"
    by (simp add: ex_ok_root_def)
  have h4: "map domain_info (findall_domains ex_ok_root) = [domain_info ex_domain1, domain_info ex_domain2]"
    by (simp add: findall_domains_ex)
  show ?thesis
    using boolean_fields_literal_true [of ex_ok_response ex_fromstring ex_ok_root ex_env ex_world]
      h1 h2 h3
    by (simp add: h4 domain_info_def ex_domain1_def ex_domain2_def)
qed


lemma findall_errors_set:
  "set (findall_errors root) =
     {e. \<exists>p \<in> set (descendants root). tag p = nc ''Errors'' \<and> e \<in> set (children p) \<and> tag e = nc ''Error''}"
  by (auto simp: findall_errors_def select_child_def select_descendant_def)

lemma get_domains_files_200:
  assumes "status_code r = 200"
  shows "files (fst (get_domains fromstring ev (Inr r) w)) = (files w)(''api_response.xml'' \<mapsto> body r)"
proof (cases "fromstring (body r)")
  case None
  then show ?thesis using assms by (simp add: get_domains_parse_error files_saved)
next
  case (Some root)
  show ?thesis
  proof (cases "map_of (attrib root) ''Status'' = Some ''OK''")
    case True
    then show ?thesis using assms Some by (simp add: get_domains_ok files_saved)
  next
    case False
    then show ?thesis using assms Some by (simp add: get_domains_api_error files_saved)
  qed
qed

lemma get_domains_files_exception:
  "files (fst (get_domains fromstring ev (Inl e) w)) = files w"
  by (simp add: get_domains_def Let_def)

text \<open>
  C2 (as amended). The response body is written to \<^verbatim>\<open>api_response.xml\<close> exactly when the
  transport status is 200, whatever the parser or the API status then say: no other file
  changes, and with any other status code the function returns before the write and
  leaves every file as it was.
\<close>

theorem response_saved_iff_status_200:
  "(status_code r = 200 \<longrightarrow>
      files (fst (get_domains fromstring ev (Inr r) w)) = (files w)(''api_response.xml'' \<mapsto> body r)) \<and>
   (status_code r \<noteq> 200 \<longrightarrow>
      files (fst (get_domains fromstring ev (Inr r) w)) = files w)"
  by (simp add: get_domains_files_200 get_domains_not_200)

theorem response_saved_iff_status_200_witness:
  "status_code ex_ok_response = 200 \<and>
   files (fst (get_domains ex_fromstring ex_env (Inr ex_ok_response) ex_world)) ''api_response.xml''
     = Some ''ok-body'' \<and>
   status_code ex_500_response \<noteq> 200 \<and>
   files (fst (get_domains ex_fromstring ex_env (Inr ex_500_response) ex_world)) = files ex_world"
  using response_saved_iff_status_200 [of ex_ok_response ex_fromstring ex_env ex_world]
    response_saved_iff_status_200 [of ex_500_response ex_fromstring ex_env ex_world]
  by (simp add: ex_ok_response_def ex_500_response_def)

text \<open>
  C2 as stated fails: with status 500 the run ends with no \<^verbatim>\<open>api_response.xml\<close> holding the
  response body.
\<close>

theorem response_not_saved_on_status_500:
  "files (fst (get_domains ex_fromstring ex_env (Inr ex_500_response) ex_world)) ''api_response.xml''
     \<noteq> Some (body ex_500_response)"
  by (simp add: get_domains_not_200 ex_500_response_def ex_world_def)

text \<open>
  C8. \<^verbatim>\<open>get_domains\<close> returns the empty list when the status code is not 200; when it is
  200 and the \<^verbatim>\<open>Status\<close> attribute of the root is not \<^verbatim>\<open>OK\<close>, it returns the empty list
  after printing one line, with number and message, for each element selected by
  \<^verbatim>\<open>.//nc:Errors/nc:Error\<close>, that is for every \<^verbatim>\<open>Error\<close> child of an \<^verbatim>\<open>Errors\<close> element
  below the root.
\<close>

theorem empty_list_on_failure:
  "(status_code r \<noteq> 200 \<longrightarrow> snd (get_domains fromstring ev (Inr r) w) = Inr []) \<and>
   (status_code r = 200 \<and> fromstring (body r) = Some root \<and>
    map_of (attrib root) ''Status'' \<noteq> Some ''OK'' \<longrightarrow>
      snd (get_domains fromstring ev (Inr r) w) = Inr [] \<and>
      stdout (fst (get_domains fromstring ev (Inr r) w))
        = stdout (saved ev r w) @ map error_line (findall_errors root) \<and>
      (\<forall>p e. p \<in> set (descendants root) \<and> tag p = nc ''Errors'' \<and>
             e \<in> set (children p) \<and> tag e = nc ''Error'' \<longrightarrow>
             error_line e \<in> set (stdout (fst (get_domains fromstring ev (Inr r) w)))))"
proof (intro conjI impI)
  assume "status_code r \<noteq> 200"
  then show "snd (get_domains fromstring ev (Inr r) w) = Inr []"
    by (simp add: get_domains_not_200)
next
  assume h: "status_code r = 200 \<and> fromstring (body r) = Some root \<and>
    map_of (attrib root) ''Status'' \<noteq> Some ''OK''"
  then have eq: "get_domains fromstring ev (Inr r) w =
     (print (map error_line (findall_errors root)) (saved ev r w), Inr [])"
    by (simp add: get_domains_api_error)
  show "snd (get_domains fromstring ev (Inr r) w) = Inr []"
    by (simp add: eq)
  show "stdout (fst (get_domains fromstring ev (Inr r) w))
        = stdout (saved ev r w) @ map error_line (findall_errors root)"
    by (simp add: eq)
  show "\<forall>p e. p \<in> set (descendants root) \<and> tag p = nc ''Errors'' \<and>
             e \<in> set (children p) \<and> tag e = nc ''Error'' \<longrightarrow>
             error_line e \<in> set (stdout (fst (get_domains fromstring ev (Inr r) w)))"
    using findall_errors_set [of root] by (auto simp: eq)
qed

theorem empty_list_on_failure_witness:
  "status_code ex_500_response \<noteq> 200 \<and>
   snd (get_domains ex_fromstring ex_env (Inr ex_500_response) ex_world) = Inr [] \<and>
   status_code ex_err_response = 200 \<and> ex_fromstring (body ex_err_response) = Some ex_err_root \<and>
   map_of (attrib ex_err_root) ''Status'' \<noteq> Some ''OK'' \<and>
   snd (get_domains ex_fromstring ex_env (Inr ex_err_response) ex_world) = Inr [] \<and>
   stdout (fst (get_domains ex_fromstring ex_env (Inr ex_err_response) ex_world))
     = stdout (saved ex_env ex_err_response ex_world)
       @ [''API Error 1011102: API Key is invalid'', ''API Error Unknown: None'']"
proof -
  have h1: "status_code ex_500_response \<noteq> 200"
    by (simp add: ex_500_response_def)
  have h2: "status_code ex_err_response = 200 \<and> ex_fromstring (body ex_err_response) = Some ex_err_root \<and>
    map_of (attrib ex_err_root) ''Status'' \<noteq> Some ''OK''"
    by (simp add: ex_err_response_def ex_fromstring_def ex_err_root_def)
  have h3: "map error_line (findall_errors ex_err_root) =
      [''API Error 1011102: API Key is invalid'', ''API Error Unknown: None'']"
    by (simp add: findall_errors_ex error_line_def ex_error1_def ex_error2_def str_opt_def)
  show ?thesis
    using empty_list_on_failure [of ex_500_response ex_fromstring ex_env ex_world ex_err_root]
      empty_list_on_failure [of ex_err_response ex_fromstring ex_env ex_world ex_err_root] h1 h2
    by (simp add: h3)
qed

subsection \<open>display_domains: exceptions\<close>


lemma snd_and_then: "snd (and_then a b) = (case snd a of Some e \<Rightarrow> Some e | None \<Rightarrow> snd b)"
  by (cases a) (auto simp: and_then_def split: option.splits)

lemma print_each_error:
  "snd (print_each f xs) = Some e \<Longrightarrow> \<exists>x \<in> set xs. f x = Inl e"
  by (induction xs) (auto split: sum.splits prod.splits)

lemma print_each_raises:
  "x \<in> set xs \<Longrightarrow> f x = Inl e \<Longrightarrow> \<exists>e'. snd (print_each f xs) = Some e'"
  by (induction xs) (auto split: sum.splits prod.splits)

lemma row_error: "row today d = Inl e \<Longrightarrow> e = TypeError"
  by (auto simp: row_def fmt_ljust_def split: option.splits sum.splits)

lemma row_whois_None: "whois_guard d = None \<Longrightarrow> row today d = Inl TypeError"
  by (auto simp: row_def fmt_ljust_def split: option.splits sum.splits)

lemma upcoming_row_error: "upcoming_row today d = Inl e \<Longrightarrow> e = TypeError"
  by (auto simp: upcoming_row_def fmt_ljust_def split: option.splits sum.splits)

lemma upcoming_view_error:
  assumes "snd (upcoming_view today ds) = Some e"
  shows "e = TypeError"
proof -
  from assms have "snd (print_each (upcoming_row today) (upcoming today ds)) = Some e"
    by (auto simp: upcoming_view_def Let_def split: if_splits prod.splits)
  then obtain x where "upcoming_row today x = Inl e"
    using print_each_error by blast
  then show ?thesis by (rule upcoming_row_error)
qed

lemma attach_dates_snd:
  "snd (attach_dates ds) = map (\<lambda>d. d\<lparr>expiry_date_obj := snd (parse_date (expires d))\<rparr>) ds"
  by (induction ds) (auto split: prod.splits)

lemma length_attach_dates: "length (snd (attach_dates ds)) = length ds"
  by (simp add: attach_dates_snd)

lemma statistics_view_error:
  "snd (statistics_view fmt1f ds) = (if ds = [] then Some ZeroDivisionError else None)"
  by (simp add: statistics_view_def Let_def stat_line_def percent_text_def split: prod.splits)

lemma set_sort_domains: "set (sort_domains ds) = set ds"
  by (auto simp: sort_domains_def Let_def)

lemma mset_sort_domains: "mset (sort_domains ds) = mset ds"
  by (simp add: sort_domains_def Let_def)


lemma snd_display_domains:
  assumes "domains \<noteq> []"
  shows "snd (display_domains fmt1f domains today) =
     (case snd (print_each (row today) (sort_domains (snd (attach_dates domains)))) of
        Some e \<Rightarrow> Some e
      | None \<Rightarrow> snd (upcoming_view today (sort_domains (snd (attach_dates domains)))))"
proof -
  obtain warns ds' where a: "attach_dates domains = (warns, ds')"
    by (cases "attach_dates domains")
  then have "ds' = snd (attach_dates domains)" by simp
  then have ne: "ds' \<noteq> []" using assms length_attach_dates [of domains] by auto
  show ?thesis
    using assms a ne
    by (simp add: display_domains_def Let_def snd_and_then statistics_view_error
        split: option.splits)
qed

text \<open>
  C1. \<^verbatim>\<open>display_domains\<close> never raises \<^verbatim>\<open>ZeroDivisionError\<close>. The statistics divide by
  the number of records and would raise exactly on the empty list, but on the empty list
  the function prints one line and returns before any view is computed.
\<close>

theorem statistics_never_divide_by_zero:
  "display_domains fmt1f [] today =
     ([''No domains found. Please check your API credentials and parameters.''], None) \<and>
   snd (display_domains fmt1f domains today) \<noteq> Some ZeroDivisionError \<and>
   (snd (statistics_view fmt1f ds) = Some ZeroDivisionError) = (ds = [])"
proof (intro conjI)
  show "display_domains fmt1f [] today =
     ([''No domains found. Please check your API credentials and parameters.''], None)"
    by (simp add: display_domains_def)
  show "(snd (statistics_view fmt1f ds) = Some ZeroDivisionError) = (ds = [])"
    by (simp add: statistics_view_error)
  show "snd (display_domains fmt1f domains today) \<noteq> Some ZeroDivisionError"
  proof (cases "domains = []")
    case True
    then show ?thesis by (simp add: display_domains_def)
  next
    case False
    let ?s = "sort_domains (snd (attach_dates domains))"
    have r: "snd (print_each (row today) ?s) \<noteq> Some ZeroDivisionError"
      using print_each_error [of "row today" ?s ZeroDivisionError] row_error
      by blast
    have u: "snd (upcoming_view today ?s) \<noteq> Some ZeroDivisionError"
      using upcoming_view_error by blast
    show ?thesis
      using r u by (auto simp: snd_display_domains [OF False] split: option.splits)
  qed
qed

text \<open>
  C9. A record whose \<^verbatim>\<open>whois_guard\<close> is \<^verbatim>\<open>None\<close> has no row: formatting it raises
  \<^verbatim>\<open>TypeError\<close>, and \<^verbatim>\<open>display_domains\<close> on any list that contains such a record ends
  with \<^verbatim>\<open>TypeError\<close>.
\<close>

theorem missing_whois_guard_raises:
  "(whois_guard d = None \<longrightarrow> row today d = Inl TypeError) \<and>
   (d \<in> set domains \<and> whois_guard d = None \<longrightarrow>
      snd (display_domains fmt1f domains today) = Some TypeError)"
proof (intro conjI impI)
  assume "whois_guard d = None"
  then show "row today d = Inl TypeError" by (rule row_whois_None)
next
  assume h: "d \<in> set domains \<and> whois_guard d = None"
  then have ne: "domains \<noteq> []" by auto
  let ?s = "sort_domains (snd (attach_dates domains))"
  let ?f = "\<lambda>d. d\<lparr>expiry_date_obj := snd (parse_date (expires d))\<rparr>"
  have "?f d \<in> ?f ` set domains"
    using h by (intro imageI) simp
  then have m: "?f d \<in> set ?s"
    by (simp add: set_sort_domains attach_dates_snd)
  have r: "row today (?f d) = Inl TypeError"
    using h by (intro row_whois_None) simp
  obtain e where e: "snd (print_each (row today) ?s) = Some e"
    using print_each_raises [where f = "row today" and e = TypeError, OF m r] by blast
  obtain x where "row today x = Inl e"
    using print_each_error [where f = "row today", OF e] by blast
  then have "e = TypeError"
    by (rule row_error)
  with e show "snd (display_domains fmt1f domains today) = Some TypeError"
    by (simp add: snd_display_domains [OF ne])
qed

theorem missing_whois_guard_raises_witness:
  "whois_guard ex_record2 = None \<and> row ex_today ex_record2 = Inl TypeError \<and>
   ex_record2 \<in> set [ex_record1, ex_record2] \<and>
   snd (display_domains ex_fmt1f [ex_record1, ex_record2] ex_today) = Some TypeError"
proof -
  have h: "whois_guard ex_record2 = None"
    by (simp add: ex_record2_def domain_info_def ex_domain2_def)
  show ?thesis
    using missing_whois_guard_raises [of ex_record2 ex_today "[ex_record1, ex_record2]" ex_fmt1f] h
    by simp
qed

subsection \<open>Evaluation of the examples\<close>

lemma re_class_simps [simp]:
  "re_class lo hi [] = []"
  "re_class lo hi (c # r) = (if in_range lo hi c then [(digit_val c, r)] else [])"
  by (simp_all add: re_class_def)

lemma re_lit_simps [simp]:
  "re_lit x [] = []"
  "re_lit x (c # r) = (if c = x then [(0, r)] else [])"
  by (simp_all add: re_lit_def)

lemmas re_defs = re_then_def re_ret_def re_alt_def re_two_def re_digit_def
  re_m_def re_d_def re_Y_def re_y_def re_H_def re_M_def re_S_def in_range_def digit_val_def

lemmas parse_date_eval = parse_date_def strptime_def re_defs mk_datetime_def valid_datetime_def
  days_in_month_def is_leap_def pivot_year_def

lemmas delta_days_eval = delta_days_def to_microseconds_def toordinal_def days_before_year_def
  days_before_month_def is_leap_def

lemma str_nat_numeral:
  "str_nat (numeral k) =
     (if numeral k < (10::nat) then [digit_char (numeral k)]
      else str_nat (numeral k div 10) @ [digit_char (numeral k)])"
  "str_nat 0 = ''0''" "str_nat 1 = ''1''" "str_nat (Suc 0) = ''1''"
  by (simp_all add: str_nat.simps [of "numeral k"] str_nat.simps [of 0] str_nat.simps [of 1]
      str_nat.simps [of "Suc 0"] digit_char_def)

lemma ex_parsed:
  "snd (parse_date (Some ''02/15/2027'')) = Some (ex_midnight 2027 2 15)"
  "snd (parse_date (Some ''junk'')) = None"
  "snd (parse_date (Some ''2026-11-20'')) = Some (ex_midnight 2026 11 20)"
  "snd (parse_date (Some ''03/05/2025'')) = Some (ex_midnight 2025 3 5)"
  "snd (parse_date (Some ''02/03/2027'')) = Some (ex_midnight 2027 2 3)"
  "snd (parse_date (Some ''11/20/26'')) = Some (ex_midnight 2026 11 20)"
  "snd (parse_date (Some ''11/05/2026'')) = Some (ex_midnight 2026 11 5)"
  by (simp_all add: parse_date_eval ex_midnight_def)

lemma ex_delta:
  "delta_days (ex_midnight 2027 2 15) ex_today = 102"
  "delta_days (ex_midnight 2026 11 20) ex_today = 15"
  "delta_days (ex_midnight 2025 3 5) ex_today = - 610"
  "delta_days (ex_midnight 2027 2 3) ex_today = 90"
  "delta_days (ex_midnight 2026 11 5) ex_today = 0"
  by (simp_all add: delta_days_eval ex_midnight_def ex_today_def)

subsection \<open>display_domains: the listing and the renewals\<close>

lemma suffix_renew_soon:
  "suffix ''RENEW SOON!'' (x @ '' ('' @ y @ '' days left) - RENEW SOON!'')"
  "\<not> suffix ''RENEW SOON!'' (x @ '' - EXPIRED!'')"
  "\<not> suffix ''RENEW SOON!'' (x @ '' ('' @ y @ '' days left)'')"
  by (simp_all add: suffix_to_prefix)

lemma suffix_expired:
  "\<not> suffix ''EXPIRED!'' (x @ '' ('' @ y @ '' days left) - RENEW SOON!'')"
  "suffix ''EXPIRED!'' (x @ '' - EXPIRED!'')"
  "\<not> suffix ''EXPIRED!'' (x @ '' ('' @ y @ '' days left)'')"
  by (simp_all add: suffix_to_prefix)

lemma expiry_text_Some:
  "expiry_date_obj d = Some t \<Longrightarrow>
   expiry_text today d =
     (if 0 < delta_days t today \<and> delta_days t today \<le> 30
      then or_na (expires d) @ '' ('' @ str_int (delta_days t today) @ '' days left) - RENEW SOON!''
      else if delta_days t today \<le> 0 then or_na (expires d) @ '' - EXPIRED!''
      else or_na (expires d) @ '' ('' @ str_int (delta_days t today) @ '' days left)'')"
  by (simp add: expiry_text_def Let_def)

text \<open>The expiry column of one row, by the days to expiry of its record.\<close>

lemma expiry_annotation:
  assumes "expiry_date_obj d = Some t"
  shows "(0 < delta_days t today \<and> delta_days t today \<le> 30 \<longrightarrow>
            expiry_text today d =
              or_na (expires d) @ '' ('' @ str_int (delta_days t today) @ '' days left) - RENEW SOON!'') \<and>
         (delta_days t today \<le> 0 \<longrightarrow> expiry_text today d = or_na (expires d) @ '' - EXPIRED!'') \<and>
         (30 < delta_days t today \<longrightarrow>
            expiry_text today d =
              or_na (expires d) @ '' ('' @ str_int (delta_days t today) @ '' days left)'') \<and>
         suffix ''RENEW SOON!'' (expiry_text today d) = (0 < delta_days t today \<and> delta_days t today \<le> 30) \<and>
         suffix ''EXPIRED!'' (expiry_text today d) = (delta_days t today \<le> 0) \<and>
         (name d = Some n \<and> whois_guard d = Some g \<longrightarrow>
            (\<exists>rest. row today d = Inr (ljust 30 n @ '' '' @ ljust 20 (expiry_text today d) @ rest)))"
proof -
  note e = expiry_text_Some [OF assms, of today]
  have 1: "suffix ''RENEW SOON!'' (expiry_text today d) = (0 < delta_days t today \<and> delta_days t today \<le> 30)"
    unfolding e by (simp add: suffix_renew_soon del: append.simps)
  have 2: "suffix ''EXPIRED!'' (expiry_text today d) = (delta_days t today \<le> 0)"
    unfolding e by (auto simp add: suffix_expired simp del: append.simps)
  have 3: "name d = Some n \<and> whois_guard d = Some g \<longrightarrow>
            (\<exists>rest. row today d = Inr (ljust 30 n @ '' '' @ ljust 20 (expiry_text today d) @ rest))"
    by (simp add: row_def fmt_ljust_def)
  show ?thesis
    using 1 2 3 by (simp add: e)
qed


lemma ex_attached:
  "snd (attach_dates ex_domains) =
     [ex_dated ''far.example'' ''02/15/2027'' (Some (ex_midnight 2027 2 15)),
      ex_dated ''junk.example'' ''junk'' None,
      ex_dated ''soon.example'' ''2026-11-20'' (Some (ex_midnight 2026 11 20)),
      ex_dated ''past.example'' ''03/05/2025'' (Some (ex_midnight 2025 3 5)),
      ex_dated ''edge90.example'' ''02/03/2027'' (Some (ex_midnight 2027 2 3)),
      ex_dated ''twin.example'' ''11/20/26'' (Some (ex_midnight 2026 11 20)),
      ex_dated ''edge0.example'' ''11/05/2026'' (Some (ex_midnight 2026 11 5))]"
  unfolding attach_dates_snd by (simp add: ex_domains_def ex_dated_def ex_rec_def ex_parsed)

lemma ex_dated_fields [simp]:
  "expiry_date_obj (ex_dated n x t) = t"
  "expires (ex_dated n x t) = Some x"
  "name (ex_dated n x t) = Some n"
  "whois_guard (ex_dated n x t) = Some ''ENABLED''"
  by (simp_all add: ex_dated_def ex_rec_def)

lemma expiry_annotation_example:
  "expiry_date_obj (ex_dated ''soon.example'' ''2026-11-20'' (Some (ex_midnight 2026 11 20)))
     = Some (ex_midnight 2026 11 20) \<and>
   delta_days (ex_midnight 2026 11 20) ex_today = 15 \<and>
   expiry_text ex_today (ex_dated ''soon.example'' ''2026-11-20'' (Some (ex_midnight 2026 11 20)))
     = ''2026-11-20 (15 days left) - RENEW SOON!'' \<and>
   delta_days (ex_midnight 2025 3 5) ex_today = - 610 \<and>
   expiry_text ex_today (ex_dated ''past.example'' ''03/05/2025'' (Some (ex_midnight 2025 3 5)))
     = ''03/05/2025 - EXPIRED!'' \<and>
   delta_days (ex_midnight 2027 2 15) ex_today = 102 \<and>
   expiry_text ex_today (ex_dated ''far.example'' ''02/15/2027'' (Some (ex_midnight 2027 2 15)))
     = ''02/15/2027 (102 days left)''"
proof -
  have a: "expiry_text ex_today (ex_dated ''soon.example'' ''2026-11-20'' (Some (ex_midnight 2026 11 20)))
     = ''2026-11-20 (15 days left) - RENEW SOON!''"
    using expiry_annotation [of "ex_dated ''soon.example'' ''2026-11-20'' (Some (ex_midnight 2026 11 20))"
      "ex_midnight 2026 11 20" ex_today "''soon.example''" "''ENABLED''"]
    by (simp add: ex_delta or_na_def str_int_def str_nat_numeral digit_char_def)
  have b: "expiry_text ex_today (ex_dated ''past.example'' ''03/05/2025'' (Some (ex_midnight 2025 3 5)))
     = ''03/05/2025 - EXPIRED!''"
    using expiry_annotation [of "ex_dated ''past.example'' ''03/05/2025'' (Some (ex_midnight 2025 3 5))"
      "ex_midnight 2025 3 5" ex_today "''past.example''" "''ENABLED''"]
    by (simp add: ex_delta or_na_def)
  have c: "expiry_text ex_today (ex_dated ''far.example'' ''02/15/2027'' (Some (ex_midnight 2027 2 15)))
     = ''02/15/2027 (102 days left)''"
    using expiry_annotation [of "ex_dated ''far.example'' ''02/15/2027'' (Some (ex_midnight 2027 2 15))"
      "ex_midnight 2027 2 15" ex_today "''far.example''" "''ENABLED''"]
    by (simp add: ex_delta or_na_def str_int_def str_nat_numeral digit_char_def)
  show ?thesis
    by (simp only: a b c ex_delta ex_dated_fields simp_thms)
qed

lemma in_window_iff:
  "in_window today d =
     (case expiry_date_obj d of None \<Rightarrow> False
      | Some t \<Rightarrow> 0 < delta_days t today \<and> delta_days t today \<le> 90)"
  by (auto simp: in_window_def split: option.splits)

lemma upcoming_filter: "upcoming today s = filter (in_window today) s"
  by (simp add: upcoming_def in_window_iff [abs_def])

text \<open>The list comprehension of the upcoming renewals, on any list of records.\<close>

lemma upcoming_is_window:
  "mset (upcoming today (sort_domains ds)) = filter_mset (in_window today) (mset ds) \<and>
   upcoming today (sort_domains ds) = filter (in_window today) (sort_domains ds) \<and>
   (expiry_date_obj d = Some t \<and> delta_days t today = 0 \<longrightarrow>
      d \<notin> set (upcoming today (sort_domains ds))) \<and>
   (d \<in> set ds \<and> expiry_date_obj d = Some t \<and> delta_days t today = 90 \<longrightarrow>
      d \<in> set (upcoming today (sort_domains ds)))"
proof -
  have "mset (upcoming today (sort_domains ds)) = filter_mset (in_window today) (mset (sort_domains ds))"
    by (simp add: upcoming_filter)
  then have 1: "mset (upcoming today (sort_domains ds)) = filter_mset (in_window today) (mset ds)"
    by (simp only: mset_sort_domains)
  have 2: "set (upcoming today (sort_domains ds)) = {d \<in> set ds. in_window today d}"
    by (simp add: upcoming_filter set_sort_domains)
  have 3: "expiry_date_obj d = Some t \<and> delta_days t today = 0 \<longrightarrow>
      d \<notin> set (upcoming today (sort_domains ds))"
    by (auto simp: 2 in_window_def)
  have 4: "d \<in> set ds \<and> expiry_date_obj d = Some t \<and> delta_days t today = 90 \<longrightarrow>
      d \<in> set (upcoming today (sort_domains ds))"
    by (auto simp: 2 in_window_def)
  show ?thesis
    using 1 3 4 by (simp add: upcoming_filter)
qed


lemma upcoming_is_window_example:
  "expiry_date_obj (ex_dated ''edge0.example'' ''11/05/2026'' (Some (ex_midnight 2026 11 5)))
     = Some (ex_midnight 2026 11 5) \<and>
   delta_days (ex_midnight 2026 11 5) ex_today = 0 \<and>
   ex_dated ''edge0.example'' ''11/05/2026'' (Some (ex_midnight 2026 11 5))
     \<notin> set (upcoming ex_today (sort_domains (snd (attach_dates ex_domains)))) \<and>
   ex_dated ''edge90.example'' ''02/03/2027'' (Some (ex_midnight 2027 2 3))
     \<in> set (snd (attach_dates ex_domains)) \<and>
   expiry_date_obj (ex_dated ''edge90.example'' ''02/03/2027'' (Some (ex_midnight 2027 2 3)))
     = Some (ex_midnight 2027 2 3) \<and>
   delta_days (ex_midnight 2027 2 3) ex_today = 90 \<and>
   ex_dated ''edge90.example'' ''02/03/2027'' (Some (ex_midnight 2027 2 3))
     \<in> set (upcoming ex_today (sort_domains (snd (attach_dates ex_domains))))"
proof -
  have m: "ex_dated ''edge90.example'' ''02/03/2027'' (Some (ex_midnight 2027 2 3))
     \<in> set (snd (attach_dates ex_domains))"
    by (simp add: ex_attached)
  have a: "ex_dated ''edge0.example'' ''11/05/2026'' (Some (ex_midnight 2026 11 5))
     \<notin> set (upcoming ex_today (sort_domains (snd (attach_dates ex_domains))))"
    using upcoming_is_window [of ex_today "snd (attach_dates ex_domains)"
        "ex_dated ''edge0.example'' ''11/05/2026'' (Some (ex_midnight 2026 11 5))"
        "ex_midnight 2026 11 5", THEN conjunct2, THEN conjunct2, THEN conjunct1]
    by (simp add: ex_delta)
  have b: "ex_dated ''edge90.example'' ''02/03/2027'' (Some (ex_midnight 2027 2 3))
     \<in> set (upcoming ex_today (sort_domains (snd (attach_dates ex_domains))))"
    using upcoming_is_window [of ex_today "snd (attach_dates ex_domains)"
        "ex_dated ''edge90.example'' ''02/03/2027'' (Some (ex_midnight 2027 2 3))"
        "ex_midnight 2027 2 3", THEN conjunct2, THEN conjunct2, THEN conjunct2] m
    by (simp add: ex_delta)
  show ?thesis
    using a b m by (simp add: ex_delta)
qed

lemma valid_part_filters:
  "filter (\<lambda>d. expiry_date_obj d \<noteq> None) (sort_key expiry_key (filter (\<lambda>d. expiry_date_obj d \<noteq> None) ds))
     = sort_key expiry_key (filter (\<lambda>d. expiry_date_obj d \<noteq> None) ds)"
  "filter (\<lambda>d. expiry_date_obj d = None) (sort_key expiry_key (filter (\<lambda>d. expiry_date_obj d \<noteq> None) ds)) = []"
  "filter (\<lambda>d. expiry_date_obj d \<noteq> None) (filter (\<lambda>d. expiry_date_obj d = None) ds) = []"
  "filter (\<lambda>d. expiry_date_obj d = None) (filter (\<lambda>d. expiry_date_obj d = None) ds)
     = filter (\<lambda>d. expiry_date_obj d = None) ds"
proof -
  show "filter (\<lambda>d. expiry_date_obj d \<noteq> None) (sort_key expiry_key (filter (\<lambda>d. expiry_date_obj d \<noteq> None) ds))
     = sort_key expiry_key (filter (\<lambda>d. expiry_date_obj d \<noteq> None) ds)"
    by (rule filter_True) simp
  show "filter (\<lambda>d. expiry_date_obj d = None) (sort_key expiry_key (filter (\<lambda>d. expiry_date_obj d \<noteq> None) ds)) = []"
    by (rule filter_False) simp
  show "filter (\<lambda>d. expiry_date_obj d \<noteq> None) (filter (\<lambda>d. expiry_date_obj d = None) ds) = []"
    by (rule filter_False) simp
  show "filter (\<lambda>d. expiry_date_obj d = None) (filter (\<lambda>d. expiry_date_obj d = None) ds)
     = filter (\<lambda>d. expiry_date_obj d = None) ds"
    by (rule filter_True) simp
qed

lemma sort_domains_valid_part:
  "filter (\<lambda>d. expiry_date_obj d \<noteq> None) (sort_domains ds)
     = sort_key expiry_key (filter (\<lambda>d. expiry_date_obj d \<noteq> None) ds)"
  unfolding sort_domains_def Let_def filter_append valid_part_filters by (rule append_Nil2)

lemma sort_domains_invalid_part:
  "filter (\<lambda>d. expiry_date_obj d = None) (sort_domains ds)
     = filter (\<lambda>d. expiry_date_obj d = None) ds"
  unfolding sort_domains_def Let_def filter_append valid_part_filters by (rule append_Nil)

lemma sort_domains_split:
  "sort_domains ds =
     filter (\<lambda>d. expiry_date_obj d \<noteq> None) (sort_domains ds)
       @ filter (\<lambda>d. expiry_date_obj d = None) (sort_domains ds)"
  unfolding sort_domains_valid_part sort_domains_invalid_part
  by (simp only: sort_domains_def Let_def)

lemma map_filter_valid:
  "map dt_key (List.map_filter expiry_date_obj xs)
     = map expiry_key (filter (\<lambda>d. expiry_date_obj d \<noteq> None) xs)"
  by (induction xs) (auto simp: List.map_filter_simps expiry_key_def split: option.splits)

lemma sort_domains_stable:
  "filter (\<lambda>d. parsed_key d = k) (sort_domains ds) = filter (\<lambda>d. parsed_key d = k) ds"
proof (cases k)
  case None
  have "filter (\<lambda>d. parsed_key d = None) (sort_key expiry_key (filter (\<lambda>d. expiry_date_obj d \<noteq> None) ds)) = []"
    by (auto simp: filter_empty_conv parsed_key_def)
  moreover have "filter (\<lambda>d. parsed_key d = None) (filter (\<lambda>d. expiry_date_obj d = None) ds)
      = filter (\<lambda>d. parsed_key d = None) ds"
    by (auto simp: parsed_key_def intro: filter_cong)
  ultimately show ?thesis
    using None by (simp add: sort_domains_def Let_def)
next
  case (Some key)
  let ?valid = "filter (\<lambda>d. expiry_date_obj d \<noteq> None) ds"
  have "filter (\<lambda>d. parsed_key d = Some key) (sort_key expiry_key ?valid)
      = filter (\<lambda>d. expiry_key d = key) (sort_key expiry_key ?valid)"
    by (rule filter_cong) (auto simp: parsed_key_def expiry_key_def)
  also have "\<dots> = filter (\<lambda>d. expiry_key d = key) ?valid"
    by (rule sort_key_stable)
  also have "\<dots> = filter (\<lambda>d. parsed_key d = Some key) ds"
    by (induction ds) (auto simp: parsed_key_def expiry_key_def)
  finally have 1: "filter (\<lambda>d. parsed_key d = Some key) (sort_key expiry_key ?valid)
      = filter (\<lambda>d. parsed_key d = Some key) ds" .
  have 2: "filter (\<lambda>d. parsed_key d = Some key) (filter (\<lambda>d. expiry_date_obj d = None) ds) = []"
    by (auto simp: filter_empty_conv parsed_key_def)
  show ?thesis
    using Some 1 2 by (simp add: sort_domains_def Let_def)
qed

text \<open>The sort of the records, on any list of records.\<close>

lemma sorted_listing_stable:
  "mset (sort_domains ds) = mset ds \<and>
   sort_domains ds =
     filter (\<lambda>d. expiry_date_obj d \<noteq> None) (sort_domains ds)
       @ filter (\<lambda>d. expiry_date_obj d = None) (sort_domains ds) \<and>
   sorted (map dt_key (List.map_filter expiry_date_obj (sort_domains ds))) \<and>
   (\<forall>k. filter (\<lambda>d. parsed_key d = k) (sort_domains ds) = filter (\<lambda>d. parsed_key d = k) ds)"
proof (intro conjI allI)
  show "mset (sort_domains ds) = mset ds"
    by (rule mset_sort_domains)
  show "sort_domains ds =
     filter (\<lambda>d. expiry_date_obj d \<noteq> None) (sort_domains ds)
       @ filter (\<lambda>d. expiry_date_obj d = None) (sort_domains ds)"
    by (rule sort_domains_split)
  show "sorted (map dt_key (List.map_filter expiry_date_obj (sort_domains ds)))"
    unfolding map_filter_valid sort_domains_valid_part by simp
  show "filter (\<lambda>d. parsed_key d = k) (sort_domains ds) = filter (\<lambda>d. parsed_key d = k) ds" for k
    by (rule sort_domains_stable)
qed

lemma ex_sorted:
  "sort_domains (snd (attach_dates ex_domains)) =
     [ex_dated ''past.example'' ''03/05/2025'' (Some (ex_midnight 2025 3 5)),
      ex_dated ''edge0.example'' ''11/05/2026'' (Some (ex_midnight 2026 11 5)),
      ex_dated ''soon.example'' ''2026-11-20'' (Some (ex_midnight 2026 11 20)),
      ex_dated ''twin.example'' ''11/20/26'' (Some (ex_midnight 2026 11 20)),
      ex_dated ''edge90.example'' ''02/03/2027'' (Some (ex_midnight 2027 2 3)),
      ex_dated ''far.example'' ''02/15/2027'' (Some (ex_midnight 2027 2 15)),
      ex_dated ''junk.example'' ''junk'' None]"
  by (simp add: ex_attached sort_domains_def expiry_key_def dt_key_def ex_midnight_def)



lemma sorted_listing_stable_example:
  "map name (sort_domains (snd (attach_dates ex_domains))) =
     [Some ''past.example'', Some ''edge0.example'', Some ''soon.example'', Some ''twin.example'',
      Some ''edge90.example'', Some ''far.example'', Some ''junk.example''] \<and>
   mset (sort_domains (snd (attach_dates ex_domains))) = mset (snd (attach_dates ex_domains)) \<and>
   filter (\<lambda>d. parsed_key d = Some (2026, 11, 20, 0, 0, 0, 0)) (sort_domains (snd (attach_dates ex_domains)))
     = [ex_dated ''soon.example'' ''2026-11-20'' (Some (ex_midnight 2026 11 20)),
        ex_dated ''twin.example'' ''11/20/26'' (Some (ex_midnight 2026 11 20))]"
proof -
  note t = sorted_listing_stable [of "snd (attach_dates ex_domains)"]
  have 1: "filter (\<lambda>d. parsed_key d = Some (2026, 11, 20, 0, 0, 0, 0)) (snd (attach_dates ex_domains))
     = [ex_dated ''soon.example'' ''2026-11-20'' (Some (ex_midnight 2026 11 20)),
        ex_dated ''twin.example'' ''11/20/26'' (Some (ex_midnight 2026 11 20))]"
    by (simp add: ex_attached parsed_key_def dt_key_def ex_midnight_def)
  have 2: "map name (sort_domains (snd (attach_dates ex_domains))) =
     [Some ''past.example'', Some ''edge0.example'', Some ''soon.example'', Some ''twin.example'',
      Some ''edge90.example'', Some ''far.example'', Some ''junk.example'']"
    by (simp add: ex_sorted)
  show ?thesis
    using t 1 2 by simp
qed

subsection \<open>display_domains: what is printed\<close>

lemma fst_and_then:
  "fst (and_then a b) = (case snd a of Some e \<Rightarrow> fst a | None \<Rightarrow> fst a @ fst b)"
  by (cases a) (auto simp: and_then_def split: option.splits)

lemma print_each_rows:
  "list_all2 (\<lambda>x l. f x = Inr l) (take (length (fst (print_each f xs))) xs) (fst (print_each f xs))"
  by (induction xs) (auto split: sum.splits prod.splits)

lemma print_each_complete:
  "snd (print_each f xs) = None \<Longrightarrow> length (fst (print_each f xs)) = length xs"
  by (induction xs) (auto split: sum.splits prod.splits)

lemma print_each_all:
  "snd (print_each f xs) = None \<Longrightarrow> list_all2 (\<lambda>x l. f x = Inr l) xs (fst (print_each f xs))"
  using print_each_rows [of f xs] print_each_complete [of f xs] by simp

lemma print_each_ok:
  "(\<And>x. x \<in> set xs \<Longrightarrow> \<exists>l. f x = Inr l) \<Longrightarrow> snd (print_each f xs) = None"
proof (induction xs)
  case Nil
  then show ?case by simp
next
  case (Cons x xs)
  obtain l where "f x = Inr l" using Cons.prems [of x] by auto
  moreover have "snd (print_each f xs) = None" using Cons by simp
  ultimately show ?case by (auto split: prod.splits)
qed

lemma listing_eq: "listing domains = sort_domains (map with_date domains)"
  by (simp add: listing_def attach_dates_snd with_date_def [abs_def])

lemma set_listing: "set (listing domains) = with_date ` set domains"
  by (simp add: listing_eq set_sort_domains)

lemma display_domains_listing:
  assumes "domains \<noteq> []"
  shows "\<exists>rest. fst (display_domains fmt1f domains today) =
           table_header domains @ fst (attach_dates domains)
             @ fst (print_each (row today) (listing domains)) @ rest \<and>
           (snd (print_each (row today) (listing domains)) \<noteq> None \<longrightarrow> rest = [])"
proof -
  obtain warns ds where a: "attach_dates domains = (warns, ds)"
    by (cases "attach_dates domains")
  then have l: "listing domains = sort_domains ds"
    by (simp add: listing_def)
  show ?thesis
    using assms a
    by (simp add: display_domains_def Let_def fst_and_then snd_and_then table_header_def l
        split: option.splits)
qed

lemma display_domains_lines:
  assumes "domains \<noteq> []" and "snd (display_domains fmt1f domains today) = None"
  shows "fst (display_domains fmt1f domains today) =
           table_header domains @ fst (attach_dates domains)
             @ fst (print_each (row today) (listing domains))
             @ [CHR 0x0A # ''--- Upcoming Renewals (next 90 days) ---'']
             @ fst (upcoming_view today (listing domains))
             @ [CHR 0x0A # ''--- Domain Statistics ---'']
             @ fst (statistics_view fmt1f (snd (attach_dates domains)))
             @ [CHR 0x0A # ''--- Domain Renewal Calendar ---'']
             @ calendar_view (listing domains)"
proof -
  obtain warns ds where a: "attach_dates domains = (warns, ds)"
    by (cases "attach_dates domains")
  then have l: "listing domains = sort_domains ds"
    by (simp add: listing_def)
  have "ds = snd (attach_dates domains)" using a by simp
  then have ne: "ds \<noteq> []" using assms(1) length_attach_dates [of domains] by auto
  have sd: "snd (display_domains fmt1f domains today) =
     (case snd (print_each (row today) (listing domains)) of
        Some e \<Rightarrow> Some e
      | None \<Rightarrow> snd (upcoming_view today (listing domains)))"
    by (simp only: snd_display_domains [OF assms(1)] listing_def)
  have r0: "snd (print_each (row today) (listing domains)) = None"
    using assms(2) unfolding sd by (cases "snd (print_each (row today) (listing domains))") simp_all
  have u0: "snd (upcoming_view today (listing domains)) = None"
    using assms(2) unfolding sd by (simp add: r0)
  have r: "snd (print_each (row today) (sort_domains ds)) = None"
    using r0 by (simp only: l)
  have u: "snd (upcoming_view today (sort_domains ds)) = None"
    using u0 by (simp only: l)
  have s: "snd (statistics_view fmt1f ds) = None"
    using ne by (simp add: statistics_view_error)
  show ?thesis
    using assms(1) a r u s
    by (simp add: display_domains_def Let_def fst_and_then snd_and_then table_header_def l)
qed

lemma row_ok: "name d = Some n \<Longrightarrow> whois_guard d = Some g \<Longrightarrow> \<exists>l. row today d = Inr l"
  by (simp add: row_def fmt_ljust_def)

lemma parse_date_None [simp]: "parse_date None = ([], None)"
  by (simp add: parse_date_def)

lemma upcoming_row_ok:
  "name d = Some n \<Longrightarrow> expires d = Some x \<Longrightarrow> \<exists>l. upcoming_row today d = Inr l"
  by (simp add: upcoming_row_def fmt_ljust_def)

lemma display_domains_no_exception:
  assumes "domains \<noteq> []" and "\<forall>d \<in> set domains. name d \<noteq> None \<and> whois_guard d \<noteq> None"
  shows "snd (display_domains fmt1f domains today) = None"
proof -
  have 1: "\<exists>l. row today d = Inr l" if "d \<in> set (listing domains)" for d
  proof -
    from that obtain d0 where "d0 \<in> set domains" "d = with_date d0"
      by (auto simp: set_listing)
    then obtain n g where "name d = Some n" "whois_guard d = Some g"
      using assms(2) by (auto simp: with_date_def)
    then show ?thesis by (rule row_ok)
  qed
  have 2: "\<exists>l. upcoming_row today d = Inr l" if "d \<in> set (upcoming today (listing domains))" for d
  proof -
    from that have m: "d \<in> set (listing domains)" and w: "expiry_date_obj d \<noteq> None"
      by (auto simp: upcoming_def split: option.splits)
    from m obtain d0 where d0: "d0 \<in> set domains" "d = with_date d0"
      by (auto simp: set_listing)
    then obtain n where n: "name d = Some n"
      using assms(2) by (auto simp: with_date_def)
    have "expires d \<noteq> None"
      using w d0(2) by (cases "expires d0") (auto simp: with_date_def)
    then obtain x where "expires d = Some x" by auto
    with n show ?thesis by (rule upcoming_row_ok)
  qed
  have r: "snd (print_each (row today) (listing domains)) = None"
    using 1 by (rule print_each_ok)
  have "snd (print_each (upcoming_row today) (upcoming today (listing domains))) = None"
    using 2 by (rule print_each_ok)
  then have u: "snd (upcoming_view today (listing domains)) = None"
    by (auto simp: upcoming_view_def Let_def split: prod.splits)
  show ?thesis
    using r u by (simp add: snd_display_domains [OF assms(1)] listing_def)
qed

lemma print_each_stops:
  "length (fst (print_each f xs)) < length xs \<Longrightarrow>
   \<exists>e. f (xs ! length (fst (print_each f xs))) = Inl e \<and> snd (print_each f xs) = Some e"
  by (induction xs) (auto split: sum.splits prod.splits)

lemma display_domains_rows:
  assumes "domains \<noteq> []"
  shows "\<exists>rows rest.
           fst (display_domains fmt1f domains today) =
             table_header domains @ fst (attach_dates domains) @ rows @ rest \<and>
           list_all2 (\<lambda>d l. row today d = Inr l) (take (length rows) (listing domains)) rows \<and>
           (snd (display_domains fmt1f domains today) = None \<longrightarrow>
              length rows = length (listing domains)) \<and>
           (length rows < length (listing domains) \<longrightarrow>
              rest = [] \<and> snd (display_domains fmt1f domains today) = Some TypeError \<and>
              row today (listing domains ! length rows) = Inl TypeError)"
proof -
  let ?p = "print_each (row today) (listing domains)"
  obtain rest where rest:
    "fst (display_domains fmt1f domains today) =
       table_header domains @ fst (attach_dates domains) @ fst ?p @ rest"
    "snd ?p \<noteq> None \<longrightarrow> rest = []"
    using display_domains_listing [OF assms, of fmt1f today] by blast
  have sd: "snd (display_domains fmt1f domains today) =
     (case snd ?p of Some e \<Rightarrow> Some e | None \<Rightarrow> snd (upcoming_view today (listing domains)))"
    by (simp only: snd_display_domains [OF assms] listing_def)
  have 1: "list_all2 (\<lambda>d l. row today d = Inr l) (take (length (fst ?p)) (listing domains)) (fst ?p)"
    by (rule print_each_rows)
  have 2: "snd (display_domains fmt1f domains today) = None \<longrightarrow>
      length (fst ?p) = length (listing domains)"
  proof
    assume "snd (display_domains fmt1f domains today) = None"
    then have "snd ?p = None"
      unfolding sd by (cases "snd ?p") simp_all
    then show "length (fst ?p) = length (listing domains)"
      by (rule print_each_complete)
  qed
  have 3: "length (fst ?p) < length (listing domains) \<longrightarrow>
      rest = [] \<and> snd (display_domains fmt1f domains today) = Some TypeError \<and>
      row today (listing domains ! length (fst ?p)) = Inl TypeError"
  proof
    assume "length (fst ?p) < length (listing domains)"
    then obtain e where e: "row today (listing domains ! length (fst ?p)) = Inl e" "snd ?p = Some e"
      using print_each_stops [of "row today" "listing domains"] by blast
    then have "e = TypeError" using row_error by blast
    with e rest(2) show "rest = [] \<and> snd (display_domains fmt1f domains today) = Some TypeError \<and>
      row today (listing domains ! length (fst ?p)) = Inl TypeError"
      by (simp add: sd)
  qed
  show ?thesis
    by (rule exI [of _ "fst ?p"], rule exI [of _ rest]) (intro conjI rest(1) 1 2 3)
qed

lemma row_annotated:
  assumes "row today d = Inr l"
  shows "annotated today d l"
proof -
  have a: "\<exists>n rest. name d = Some n \<and> l = ljust 30 n @ '' '' @ ljust 20 (expiry_text today d) @ rest"
    using assms by (auto simp: row_def fmt_ljust_def split: option.splits)
  have b: "\<forall>t. expiry_date_obj d = Some t \<longrightarrow>
         (0 < delta_days t today \<and> delta_days t today \<le> 30 \<longrightarrow>
            expiry_text today d =
              or_na (expires d) @ '' ('' @ str_int (delta_days t today) @ '' days left) - RENEW SOON!'') \<and>
         (delta_days t today \<le> 0 \<longrightarrow> expiry_text today d = or_na (expires d) @ '' - EXPIRED!'') \<and>
         (30 < delta_days t today \<longrightarrow>
            expiry_text today d =
              or_na (expires d) @ '' ('' @ str_int (delta_days t today) @ '' days left)'') \<and>
         suffix ''RENEW SOON!'' (expiry_text today d)
           = (0 < delta_days t today \<and> delta_days t today \<le> 30) \<and>
         suffix ''EXPIRED!'' (expiry_text today d) = (delta_days t today \<le> 0)"
    using expiry_annotation [of d _ today] by blast
  show ?thesis
    unfolding annotated_def using a b by blast
qed

text \<open>
  C6. \<^verbatim>\<open>display_domains\<close> on a non-empty list prints, after the table header and the
  warnings, one row for each record of the sorted listing, in order (up to the first record
  whose row raises). The expiry column of a row is computed against the report time
  \<open>today\<close>: for a record with a parsed date and \<open>n\<close> days to expiry it is the raw date
  followed by the days left and the marker \<^verbatim>\<open>RENEW SOON!\<close> when \<open>0 < n \<le> 30\<close>, by the marker
  \<^verbatim>\<open>EXPIRED!\<close> alone when \<open>n \<le> 0\<close>, and by the days left alone otherwise; each marker
  appears in exactly its case.
\<close>

theorem listing_rows_annotated:
  assumes "domains \<noteq> []"
  shows "\<exists>rows rest.
           fst (display_domains fmt1f domains today) =
             table_header domains @ fst (attach_dates domains) @ rows @ rest \<and>
           list_all2 (annotated today) (take (length rows) (listing domains)) rows \<and>
           (snd (display_domains fmt1f domains today) = None \<longrightarrow>
              length rows = length (listing domains)) \<and>
           (length rows < length (listing domains) \<longrightarrow>
              rest = [] \<and> snd (display_domains fmt1f domains today) = Some TypeError)"
proof -
  from display_domains_rows [OF assms, of fmt1f today]
  obtain rows where "\<exists>rest.
       fst (display_domains fmt1f domains today) =
         table_header domains @ fst (attach_dates domains) @ rows @ rest \<and>
       list_all2 (\<lambda>d l. row today d = Inr l) (take (length rows) (listing domains)) rows \<and>
       (snd (display_domains fmt1f domains today) = None \<longrightarrow>
          length rows = length (listing domains)) \<and>
       (length rows < length (listing domains) \<longrightarrow>
          rest = [] \<and> snd (display_domains fmt1f domains today) = Some TypeError \<and>
          row today (listing domains ! length rows) = Inl TypeError)" ..
  then obtain rest where r0:
      "fst (display_domains fmt1f domains today) =
         table_header domains @ fst (attach_dates domains) @ rows @ rest \<and>
       list_all2 (\<lambda>d l. row today d = Inr l) (take (length rows) (listing domains)) rows \<and>
       (snd (display_domains fmt1f domains today) = None \<longrightarrow>
          length rows = length (listing domains)) \<and>
       (length rows < length (listing domains) \<longrightarrow>
          rest = [] \<and> snd (display_domains fmt1f domains today) = Some TypeError \<and>
          row today (listing domains ! length rows) = Inl TypeError)" ..
  then have r:
    "fst (display_domains fmt1f domains today) =
       table_header domains @ fst (attach_dates domains) @ rows @ rest"
    "list_all2 (\<lambda>d l. row today d = Inr l) (take (length rows) (listing domains)) rows"
    "snd (display_domains fmt1f domains today) = None \<longrightarrow> length rows = length (listing domains)"
    "length rows < length (listing domains) \<longrightarrow>
       rest = [] \<and> snd (display_domains fmt1f domains today) = Some TypeError"
    by simp_all
  have "list_all2 (annotated today) (take (length rows) (listing domains)) rows"
    using r(2) by (rule list_all2_mono) (rule row_annotated)
  with r show ?thesis
    by (intro exI [of _ rows] exI [of _ rest]) simp
qed

text \<open>
  C4. \<^verbatim>\<open>display_domains\<close> on a non-empty list prints, after the table header and the
  warnings, the rows of the records in the order of the sorted listing: all of them when no
  exception is raised, and otherwise those before the first record whose row raises
  \<^verbatim>\<open>TypeError\<close>, after which nothing is printed. The sorted listing is a permutation of
  the input records (each with its parsed date); every record with a parsed date comes
  before every record without one; the parsed dates are non-decreasing along the listing;
  and records that compare equal (the same parsed date, or no parsed date) keep the order
  of the input.
\<close>

theorem listing_sorted_stable:
  assumes "domains \<noteq> []"
  shows "(\<exists>rows rest.
           fst (display_domains fmt1f domains today) =
             table_header domains @ fst (attach_dates domains) @ rows @ rest \<and>
           list_all2 (\<lambda>d l. row today d = Inr l) (take (length rows) (listing domains)) rows \<and>
           (snd (display_domains fmt1f domains today) = None \<longrightarrow>
              length rows = length (listing domains)) \<and>
           (length rows < length (listing domains) \<longrightarrow>
              rest = [] \<and> snd (display_domains fmt1f domains today) = Some TypeError \<and>
              row today (listing domains ! length rows) = Inl TypeError)) \<and>
         mset (listing domains) = mset (map with_date domains) \<and>
         listing domains =
           filter (\<lambda>d. expiry_date_obj d \<noteq> None) (listing domains)
             @ filter (\<lambda>d. expiry_date_obj d = None) (listing domains) \<and>
         sorted (map dt_key (List.map_filter expiry_date_obj (listing domains))) \<and>
         (\<forall>k. filter (\<lambda>d. parsed_key d = k) (listing domains)
                = filter (\<lambda>d. parsed_key d = k) (map with_date domains))"
proof -
  note s = sorted_listing_stable [of "map with_date domains", folded listing_eq]
  show ?thesis
    using display_domains_rows [OF assms, of fmt1f today] s by (intro conjI) simp_all
qed

lemma upcoming_view_lines:
  assumes "snd (upcoming_view today s) = None"
  shows "(upcoming today s = [] \<longrightarrow>
            fst (upcoming_view today s) = [''No domains expiring in the next 90 days.'']) \<and>
         (upcoming today s \<noteq> [] \<longrightarrow>
            (\<exists>urows. fst (upcoming_view today s) =
               [CHR 0x0A # ljust 30 ''Domain Name'' @ '' '' @ ljust 20 ''Expiry Date'' @ '' ''
                  @ ljust 10 ''Days Left'' @ '' Auto Renew'', replicate 75 (CHR ''-'')] @ urows \<and>
               list_all2 (\<lambda>d l. upcoming_row today d = Inr l) (upcoming today s) urows))"
proof (cases "upcoming today s = []")
  case True
  then show ?thesis by (simp add: upcoming_view_def)
next
  case False
  let ?p = "print_each (upcoming_row today) (upcoming today s)"
  have v: "upcoming_view today s =
     ([CHR 0x0A # ljust 30 ''Domain Name'' @ '' '' @ ljust 20 ''Expiry Date'' @ '' ''
                  @ ljust 10 ''Days Left'' @ '' Auto Renew'', replicate 75 (CHR ''-'')] @ fst ?p, snd ?p)"
    using False by (simp add: upcoming_view_def Let_def split: prod.splits)
  then have "snd ?p = None" using assms by simp
  then have "list_all2 (\<lambda>d l. upcoming_row today d = Inr l) (upcoming today s) (fst ?p)"
    by (rule print_each_all)
  then show ?thesis
    using False by (simp only: v fst_conv) blast
qed

text \<open>
  C5. When \<^verbatim>\<open>display_domains\<close> on a non-empty list raises no exception, it prints, between
  the rows of the listing and the statistics, the section of the upcoming renewals: one row,
  in listing order, for exactly the records that have a parsed date and \<open>0 < n \<le> 90\<close> days
  to expiry at the report time (or one line saying that there are none). These are the
  records of the input in the window, with their multiplicity; a record with 0 days is not
  in the window and a record with 90 days is.
\<close>

theorem renewals_section_is_window:
  assumes "domains \<noteq> []" and "snd (display_domains fmt1f domains today) = None"
  shows "(\<exists>rows lines rest.
            fst (display_domains fmt1f domains today) =
              table_header domains @ fst (attach_dates domains) @ rows
                @ [CHR 0x0A # ''--- Upcoming Renewals (next 90 days) ---''] @ lines
                @ [CHR 0x0A # ''--- Domain Statistics ---''] @ rest \<and>
            length rows = length (listing domains) \<and>
            (filter (in_window today) (listing domains) = [] \<longrightarrow>
               lines = [''No domains expiring in the next 90 days.'']) \<and>
            (filter (in_window today) (listing domains) \<noteq> [] \<longrightarrow>
               (\<exists>urows. lines =
                  [CHR 0x0A # ljust 30 ''Domain Name'' @ '' '' @ ljust 20 ''Expiry Date'' @ '' ''
                     @ ljust 10 ''Days Left'' @ '' Auto Renew'', replicate 75 (CHR ''-'')] @ urows \<and>
                  list_all2 (\<lambda>d l. upcoming_row today d = Inr l)
                    (filter (in_window today) (listing domains)) urows))) \<and>
         mset (filter (in_window today) (listing domains))
           = filter_mset (in_window today) (mset (map with_date domains)) \<and>
         (\<forall>d t. expiry_date_obj d = Some t \<and> delta_days t today = 0 \<longrightarrow> \<not> in_window today d) \<and>
         (\<forall>d t. expiry_date_obj d = Some t \<and> delta_days t today = 90 \<longrightarrow> in_window today d)"
proof (intro conjI)
  let ?L = "listing domains"
  let ?p = "print_each (row today) ?L"
  have sd: "snd (display_domains fmt1f domains today) =
     (case snd ?p of Some e \<Rightarrow> Some e | None \<Rightarrow> snd (upcoming_view today ?L))"
    by (simp only: snd_display_domains [OF assms(1)] listing_def)
  have r0: "snd ?p = None"
    using assms(2) unfolding sd by (cases "snd ?p") simp_all
  have u0: "snd (upcoming_view today ?L) = None"
    using assms(2) unfolding sd by (simp add: r0)
  have len: "length (fst ?p) = length ?L"
    using r0 by (rule print_each_complete)
  note lines = display_domains_lines [OF assms, unfolded append_assoc]
  note uv = upcoming_view_lines [OF u0, unfolded upcoming_filter]
  show "\<exists>rows lines rest.
            fst (display_domains fmt1f domains today) =
              table_header domains @ fst (attach_dates domains) @ rows
                @ [CHR 0x0A # ''--- Upcoming Renewals (next 90 days) ---''] @ lines
                @ [CHR 0x0A # ''--- Domain Statistics ---''] @ rest \<and>
            length rows = length (listing domains) \<and>
            (filter (in_window today) (listing domains) = [] \<longrightarrow>
               lines = [''No domains expiring in the next 90 days.'']) \<and>
            (filter (in_window today) (listing domains) \<noteq> [] \<longrightarrow>
               (\<exists>urows. lines =
                  [CHR 0x0A # ljust 30 ''Domain Name'' @ '' '' @ ljust 20 ''Expiry Date'' @ '' ''
                     @ ljust 10 ''Days Left'' @ '' Auto Renew'', replicate 75 (CHR ''-'')] @ urows \<and>
                  list_all2 (\<lambda>d l. upcoming_row today d = Inr l)
                    (filter (in_window today) (listing domains)) urows))"
    apply (rule exI [of _ "fst ?p"])
    apply (rule exI [of _ "fst (upcoming_view today ?L)"])
    apply (rule exI [of _ "fst (statistics_view fmt1f (snd (attach_dates domains)))
             @ [CHR 0x0A # ''--- Domain Renewal Calendar ---''] @ calendar_view ?L"])
    apply (intro conjI)
       apply (rule lines)
      apply (rule len)
     apply (rule uv [THEN conjunct1])
    apply (rule uv [THEN conjunct2])
    done
  show "mset (filter (in_window today) (listing domains))
           = filter_mset (in_window today) (mset (map with_date domains))"
    by (simp add: listing_eq mset_sort_domains)
  show "\<forall>d t. expiry_date_obj d = Some t \<and> delta_days t today = 0 \<longrightarrow> \<not> in_window today d"
    by (auto simp: in_window_def)
  show "\<forall>d t. expiry_date_obj d = Some t \<and> delta_days t today = 90 \<longrightarrow> in_window today d"
    by (auto simp: in_window_def)
qed

lemma attach_dates_fst:
  "fst (attach_dates ds) = concat (map (\<lambda>d. fst (parse_date (expires d))) ds)"
  by (induction ds) (auto split: prod.splits)

lemma ex_warned:
  "fst (parse_date (Some ''junk'')) = [''Warning: Unable to parse date: junk'']"
  "fst (parse_date (Some ''02/15/2027'')) = []"
  "fst (parse_date (Some ''2026-11-20'')) = []"
  "fst (parse_date (Some ''03/05/2025'')) = []"
  "fst (parse_date (Some ''02/03/2027'')) = []"
  "fst (parse_date (Some ''11/20/26'')) = []"
  "fst (parse_date (Some ''11/05/2026'')) = []"
  by (simp_all add: parse_date_eval)

lemma ex_warnings: "fst (attach_dates ex_domains) = [''Warning: Unable to parse date: junk'']"
  unfolding attach_dates_fst by (simp add: ex_domains_def ex_rec_def ex_warned)

lemma ex_listing:
  "listing ex_domains =
     [ex_dated ''past.example'' ''03/05/2025'' (Some (ex_midnight 2025 3 5)),
      ex_dated ''edge0.example'' ''11/05/2026'' (Some (ex_midnight 2026 11 5)),
      ex_dated ''soon.example'' ''2026-11-20'' (Some (ex_midnight 2026 11 20)),
      ex_dated ''twin.example'' ''11/20/26'' (Some (ex_midnight 2026 11 20)),
      ex_dated ''edge90.example'' ''02/03/2027'' (Some (ex_midnight 2027 2 3)),
      ex_dated ''far.example'' ''02/15/2027'' (Some (ex_midnight 2027 2 15)),
      ex_dated ''junk.example'' ''junk'' None]"
  by (simp only: listing_def ex_sorted)

lemma ex_no_exception: "snd (display_domains ex_fmt1f ex_domains ex_today) = None"
  by (rule display_domains_no_exception) (simp_all add: ex_domains_def ex_rec_def)

lemma ex_dated_more [simp]:
  "created (ex_dated n x t) = Some ''02/15/2016''"
  "auto_renew (ex_dated n x t) = True"
  "is_locked (ex_dated n x t) = True"
  by (simp_all add: ex_dated_def ex_rec_def)

lemma ex_expiry_text:
  "expiry_text ex_today (ex_dated n ''03/05/2025'' (Some (ex_midnight 2025 3 5))) = ''03/05/2025 - EXPIRED!''"
  "expiry_text ex_today (ex_dated n ''11/05/2026'' (Some (ex_midnight 2026 11 5))) = ''11/05/2026 - EXPIRED!''"
  "expiry_text ex_today (ex_dated n ''2026-11-20'' (Some (ex_midnight 2026 11 20)))
     = ''2026-11-20 (15 days left) - RENEW SOON!''"
  "expiry_text ex_today (ex_dated n ''11/20/26'' (Some (ex_midnight 2026 11 20)))
     = ''11/20/26 (15 days left) - RENEW SOON!''"
  "expiry_text ex_today (ex_dated n ''02/03/2027'' (Some (ex_midnight 2027 2 3))) = ''02/03/2027 (90 days left)''"
  "expiry_text ex_today (ex_dated n ''02/15/2027'' (Some (ex_midnight 2027 2 15))) = ''02/15/2027 (102 days left)''"
  "expiry_text ex_today (ex_dated n ''junk'' None) = ''junk''"
  by (simp_all add: expiry_text_def Let_def ex_delta or_na_def str_int_def str_nat_numeral digit_char_def)

lemma replicate_numeral: "replicate (numeral k) x = x # replicate (pred_numeral k) x"
  by (simp add: numeral_eq_Suc)

lemma ex_rows:
  "fst (print_each (row ex_today) (listing ex_domains)) =
     [''past.example                   03/05/2025 - EXPIRED! 02/15/2016           Yes          Yes        ENABLED        '',
      ''edge0.example                  11/05/2026 - EXPIRED! 02/15/2016           Yes          Yes        ENABLED        '',
      ''soon.example                   2026-11-20 (15 days left) - RENEW SOON! 02/15/2016           Yes          Yes        ENABLED        '',
      ''twin.example                   11/20/26 (15 days left) - RENEW SOON! 02/15/2016           Yes          Yes        ENABLED        '',
      ''edge90.example                 02/03/2027 (90 days left) 02/15/2016           Yes          Yes        ENABLED        '',
      ''far.example                    02/15/2027 (102 days left) 02/15/2016           Yes          Yes        ENABLED        '',
      ''junk.example                   junk                 02/15/2016           Yes          Yes        ENABLED        '']"
  unfolding ex_listing
  by (simp add: row_def fmt_ljust_def ex_expiry_text ljust_def or_na_def yes_no_def replicate_numeral)

lemma ex_window:
  "filter (in_window ex_today) (listing ex_domains) =
     [ex_dated ''soon.example'' ''2026-11-20'' (Some (ex_midnight 2026 11 20)),
      ex_dated ''twin.example'' ''11/20/26'' (Some (ex_midnight 2026 11 20)),
      ex_dated ''edge90.example'' ''02/03/2027'' (Some (ex_midnight 2027 2 3))]"
  unfolding ex_listing by (simp add: in_window_iff ex_delta)

lemma ex_upcoming_rows:
  "fst (print_each (upcoming_row ex_today) (filter (in_window ex_today) (listing ex_domains))) =
     [''soon.example                   2026-11-20           15         Yes'',
      ''twin.example                   11/20/26             15         Yes'',
      ''edge90.example                 02/03/2027           90         Yes'']"
  unfolding ex_window
  by (simp add: upcoming_row_def fmt_ljust_def ljust_def yes_no_def replicate_numeral ex_delta
      str_int_def str_nat_numeral digit_char_def)

lemma fst_upcoming_view:
  "fst (upcoming_view today s) =
     (if upcoming today s \<noteq> [] then
        [CHR 0x0A # ljust 30 ''Domain Name'' @ '' '' @ ljust 20 ''Expiry Date'' @ '' ''
           @ ljust 10 ''Days Left'' @ '' Auto Renew'', replicate 75 (CHR ''-'')]
          @ fst (print_each (upcoming_row today) (upcoming today s))
      else [''No domains expiring in the next 90 days.''])"
  by (simp add: upcoming_view_def Let_def split: prod.splits)

lemma ex_upcoming_header:
  "[CHR 0x0A # ljust 30 ''Domain Name'' @ '' '' @ ljust 20 ''Expiry Date'' @ '' ''
           @ ljust 10 ''Days Left'' @ '' Auto Renew'', replicate 75 (CHR ''-'')] =
   [CHR 0x0A # ''Domain Name                    Expiry Date          Days Left  Auto Renew'',
    ''---------------------------------------------------------------------------'']"
  by (simp add: ljust_def replicate_numeral)

lemma ex_nonempty: "ex_domains \<noteq> []"
  by (simp add: ex_domains_def)

lemma ex_report_listing:
  "\<exists>rest. fst (display_domains ex_fmt1f ex_domains ex_today) =
     table_header ex_domains @ [''Warning: Unable to parse date: junk'']
       @ [''past.example                   03/05/2025 - EXPIRED! 02/15/2016           Yes          Yes        ENABLED        '',
          ''edge0.example                  11/05/2026 - EXPIRED! 02/15/2016           Yes          Yes        ENABLED        '',
          ''soon.example                   2026-11-20 (15 days left) - RENEW SOON! 02/15/2016           Yes          Yes        ENABLED        '',
          ''twin.example                   11/20/26 (15 days left) - RENEW SOON! 02/15/2016           Yes          Yes        ENABLED        '',
          ''edge90.example                 02/03/2027 (90 days left) 02/15/2016           Yes          Yes        ENABLED        '',
          ''far.example                    02/15/2027 (102 days left) 02/15/2016           Yes          Yes        ENABLED        '',
          ''junk.example                   junk                 02/15/2016           Yes          Yes        ENABLED        '']
       @ rest"
  using display_domains_listing [OF ex_nonempty, of ex_fmt1f ex_today]
  by (simp only: ex_warnings ex_rows) blast

theorem listing_sorted_stable_witness:
  "ex_domains \<noteq> [] \<and>
   snd (display_domains ex_fmt1f ex_domains ex_today) = None \<and>
   (\<exists>rest. fst (display_domains ex_fmt1f ex_domains ex_today) =
     table_header ex_domains @ [''Warning: Unable to parse date: junk'']
       @ [''past.example                   03/05/2025 - EXPIRED! 02/15/2016           Yes          Yes        ENABLED        '',
          ''edge0.example                  11/05/2026 - EXPIRED! 02/15/2016           Yes          Yes        ENABLED        '',
          ''soon.example                   2026-11-20 (15 days left) - RENEW SOON! 02/15/2016           Yes          Yes        ENABLED        '',
          ''twin.example                   11/20/26 (15 days left) - RENEW SOON! 02/15/2016           Yes          Yes        ENABLED        '',
          ''edge90.example                 02/03/2027 (90 days left) 02/15/2016           Yes          Yes        ENABLED        '',
          ''far.example                    02/15/2027 (102 days left) 02/15/2016           Yes          Yes        ENABLED        '',
          ''junk.example                   junk                 02/15/2016           Yes          Yes        ENABLED        '']
       @ rest) \<and>
   map name (map with_date ex_domains) =
     [Some ''far.example'', Some ''junk.example'', Some ''soon.example'', Some ''past.example'',
      Some ''edge90.example'', Some ''twin.example'', Some ''edge0.example''] \<and>
   map name (listing ex_domains) =
     [Some ''past.example'', Some ''edge0.example'', Some ''soon.example'', Some ''twin.example'',
      Some ''edge90.example'', Some ''far.example'', Some ''junk.example''] \<and>
   mset (listing ex_domains) = mset (map with_date ex_domains)"
proof -
  note t = listing_sorted_stable [OF ex_nonempty, of ex_fmt1f ex_today]
  have 1: "map name (map with_date ex_domains) =
     [Some ''far.example'', Some ''junk.example'', Some ''soon.example'', Some ''past.example'',
      Some ''edge90.example'', Some ''twin.example'', Some ''edge0.example'']"
    by (simp add: ex_domains_def with_date_def ex_rec_def)
  have 2: "map name (listing ex_domains) =
     [Some ''past.example'', Some ''edge0.example'', Some ''soon.example'', Some ''twin.example'',
      Some ''edge90.example'', Some ''far.example'', Some ''junk.example'']"
    by (simp add: ex_listing)
  have 3: "mset (listing ex_domains) = mset (map with_date ex_domains)"
    using t by (elim conjE)
  show ?thesis
    by (intro conjI ex_nonempty ex_no_exception ex_report_listing 1 2 3)
qed

theorem listing_rows_annotated_witness:
  "ex_domains \<noteq> [] \<and>
   snd (display_domains ex_fmt1f ex_domains ex_today) = None \<and>
   (\<exists>rows rest. fst (display_domains ex_fmt1f ex_domains ex_today) =
       table_header ex_domains @ fst (attach_dates ex_domains) @ rows @ rest \<and>
       list_all2 (annotated ex_today) (take (length rows) (listing ex_domains)) rows \<and>
       length rows = length (listing ex_domains)) \<and>
   delta_days (ex_midnight 2026 11 20) ex_today = 15 \<and>
   annotated ex_today (ex_dated ''soon.example'' ''2026-11-20'' (Some (ex_midnight 2026 11 20)))
     ''soon.example                   2026-11-20 (15 days left) - RENEW SOON! 02/15/2016           Yes          Yes        ENABLED        '' \<and>
   delta_days (ex_midnight 2025 3 5) ex_today = - 610 \<and>
   annotated ex_today (ex_dated ''past.example'' ''03/05/2025'' (Some (ex_midnight 2025 3 5)))
     ''past.example                   03/05/2025 - EXPIRED! 02/15/2016           Yes          Yes        ENABLED        '' \<and>
   delta_days (ex_midnight 2027 2 15) ex_today = 102 \<and>
   annotated ex_today (ex_dated ''far.example'' ''02/15/2027'' (Some (ex_midnight 2027 2 15)))
     ''far.example                    02/15/2027 (102 days left) 02/15/2016           Yes          Yes        ENABLED        ''"
proof -
  from listing_rows_annotated [OF ex_nonempty, of ex_fmt1f ex_today]
  obtain rows where "\<exists>rest. fst (display_domains ex_fmt1f ex_domains ex_today) =
       table_header ex_domains @ fst (attach_dates ex_domains) @ rows @ rest \<and>
       list_all2 (annotated ex_today) (take (length rows) (listing ex_domains)) rows \<and>
       (snd (display_domains ex_fmt1f ex_domains ex_today) = None \<longrightarrow>
          length rows = length (listing ex_domains)) \<and>
       (length rows < length (listing ex_domains) \<longrightarrow>
          rest = [] \<and> snd (display_domains ex_fmt1f ex_domains ex_today) = Some TypeError)" ..
  then obtain rest where r: "fst (display_domains ex_fmt1f ex_domains ex_today) =
       table_header ex_domains @ fst (attach_dates ex_domains) @ rows @ rest \<and>
       list_all2 (annotated ex_today) (take (length rows) (listing ex_domains)) rows \<and>
       (snd (display_domains ex_fmt1f ex_domains ex_today) = None \<longrightarrow>
          length rows = length (listing ex_domains)) \<and>
       (length rows < length (listing ex_domains) \<longrightarrow>
          rest = [] \<and> snd (display_domains ex_fmt1f ex_domains ex_today) = Some TypeError)" ..
  have len: "length rows = length (listing ex_domains)"
    using r ex_no_exception by simp
  have all: "list_all2 (annotated ex_today) (listing ex_domains) rows"
    using r len by simp
  have rows: "rows = fst (print_each (row ex_today) (listing ex_domains))"
  proof -
    have "fst (display_domains ex_fmt1f ex_domains ex_today) =
       table_header ex_domains @ fst (attach_dates ex_domains)
         @ fst (print_each (row ex_today) (listing ex_domains))
         @ ([CHR 0x0A # ''--- Upcoming Renewals (next 90 days) ---'']
         @ fst (upcoming_view ex_today (listing ex_domains))
         @ [CHR 0x0A # ''--- Domain Statistics ---'']
         @ fst (statistics_view ex_fmt1f (snd (attach_dates ex_domains)))
         @ [CHR 0x0A # ''--- Domain Renewal Calendar ---'']
         @ calendar_view (listing ex_domains))"
      using display_domains_lines [OF ex_nonempty ex_no_exception] by simp
    moreover have "length (fst (print_each (row ex_today) (listing ex_domains))) = length rows"
      by (subst ex_rows) (simp add: len ex_listing)
    ultimately show ?thesis
      using r by (simp add: append_eq_append_conv)
  qed
  have e: "\<exists>rows rest. fst (display_domains ex_fmt1f ex_domains ex_today) =
       table_header ex_domains @ fst (attach_dates ex_domains) @ rows @ rest \<and>
       list_all2 (annotated ex_today) (take (length rows) (listing ex_domains)) rows \<and>
       length rows = length (listing ex_domains)"
    using r len by blast
  have a: "list_all2 (annotated ex_today) (listing ex_domains)
     (fst (print_each (row ex_today) (listing ex_domains)))"
    using all rows by simp
  note a' = a [unfolded ex_rows]
  note a'' = a' [unfolded ex_listing]
  show ?thesis
    using a'' e ex_nonempty ex_no_exception by (simp add: ex_delta)
qed

theorem renewals_section_is_window_witness:
  "ex_domains \<noteq> [] \<and>
   snd (display_domains ex_fmt1f ex_domains ex_today) = None \<and>
   filter (in_window ex_today) (listing ex_domains) =
     [ex_dated ''soon.example'' ''2026-11-20'' (Some (ex_midnight 2026 11 20)),
      ex_dated ''twin.example'' ''11/20/26'' (Some (ex_midnight 2026 11 20)),
      ex_dated ''edge90.example'' ''02/03/2027'' (Some (ex_midnight 2027 2 3))] \<and>
   (\<exists>rows rest. length rows = 7 \<and>
      fst (display_domains ex_fmt1f ex_domains ex_today) =
        table_header ex_domains @ fst (attach_dates ex_domains) @ rows
          @ [CHR 0x0A # ''--- Upcoming Renewals (next 90 days) ---'',
             CHR 0x0A # ''Domain Name                    Expiry Date          Days Left  Auto Renew'',
             ''---------------------------------------------------------------------------'',
             ''soon.example                   2026-11-20           15         Yes'',
             ''twin.example                   11/20/26             15         Yes'',
             ''edge90.example                 02/03/2027           90         Yes'',
             CHR 0x0A # ''--- Domain Statistics ---'']
          @ rest) \<and>
   delta_days (ex_midnight 2026 11 5) ex_today = 0 \<and>
   \<not> in_window ex_today (ex_dated ''edge0.example'' ''11/05/2026'' (Some (ex_midnight 2026 11 5))) \<and>
   delta_days (ex_midnight 2027 2 3) ex_today = 90 \<and>
   in_window ex_today (ex_dated ''edge90.example'' ''02/03/2027'' (Some (ex_midnight 2027 2 3)))"
proof -
  note t = renewals_section_is_window [OF ex_nonempty ex_no_exception]
  have b0: "\<not> in_window ex_today (ex_dated ''edge0.example'' ''11/05/2026'' (Some (ex_midnight 2026 11 5)))"
    using t [THEN conjunct2, THEN conjunct2, THEN conjunct1] by (simp add: ex_delta)
  have b90: "in_window ex_today (ex_dated ''edge90.example'' ''02/03/2027'' (Some (ex_midnight 2027 2 3)))"
    using t [THEN conjunct2, THEN conjunct2, THEN conjunct2] by (simp add: ex_delta)
  have u: "snd (upcoming_view ex_today (listing ex_domains)) = None"
    using ex_no_exception snd_display_domains [OF ex_nonempty, of ex_fmt1f ex_today]
    by (simp add: listing_def split: option.splits)
  have ne: "upcoming ex_today (listing ex_domains) \<noteq> []"
    by (simp add: upcoming_filter ex_window)
  have uv: "fst (upcoming_view ex_today (listing ex_domains)) =
     [CHR 0x0A # ''Domain Name                    Expiry Date          Days Left  Auto Renew'',
      ''---------------------------------------------------------------------------'',
      ''soon.example                   2026-11-20           15         Yes'',
      ''twin.example                   11/20/26             15         Yes'',
      ''edge90.example                 02/03/2027           90         Yes'']"
    by (simp only: fst_upcoming_view ne if_True ex_upcoming_header)
       (simp add: upcoming_filter ex_upcoming_rows del: print_each.simps)
  have len: "length (fst (print_each (row ex_today) (listing ex_domains))) = 7"
    by (subst ex_rows) simp
  have e: "\<exists>rows rest. length rows = 7 \<and>
      fst (display_domains ex_fmt1f ex_domains ex_today) =
        table_header ex_domains @ fst (attach_dates ex_domains) @ rows
          @ [CHR 0x0A # ''--- Upcoming Renewals (next 90 days) ---'',
             CHR 0x0A # ''Domain Name                    Expiry Date          Days Left  Auto Renew'',
             ''---------------------------------------------------------------------------'',
             ''soon.example                   2026-11-20           15         Yes'',
             ''twin.example                   11/20/26             15         Yes'',
             ''edge90.example                 02/03/2027           90         Yes'',
             CHR 0x0A # ''--- Domain Statistics ---'']
          @ rest"
    apply (rule exI [of _ "fst (print_each (row ex_today) (listing ex_domains))"])
    apply (rule exI [of _ "fst (statistics_view ex_fmt1f (snd (attach_dates ex_domains)))
         @ [CHR 0x0A # ''--- Domain Renewal Calendar ---'']
         @ calendar_view (listing ex_domains)"])
    apply (rule conjI [OF len])
    apply (simp only: display_domains_lines [OF ex_nonempty ex_no_exception] uv append_assoc append.simps)
    done
  show ?thesis
    by (intro conjI ex_nonempty ex_no_exception ex_window e b0 b90) (simp_all add: ex_delta)
qed

subsection \<open>display_domains: the calendar\<close>

lemma below_ten:
  "(k::nat) < 10 \<Longrightarrow>
   k \<in> {0, 1, 2, 3, 4} \<or> k \<in> {5, 6, 7, 8, 9}"
  by (auto simp: numeral_eq_Suc less_Suc_eq)

lemma month_cases:
  "1 \<le> m \<Longrightarrow> m \<le> 12 \<Longrightarrow>
   (m::nat) = 1 \<or> m = 2 \<or> m = 3 \<or> m = 4 \<or> m = 5 \<or> m = 6 \<or> m = 7 \<or> m = 8 \<or> m = 9 \<or>
   m = 10 \<or> m = 11 \<or> m = 12"
  by (auto simp: numeral_eq_Suc le_Suc_eq)

lemma digit_char_cases:
  "digit_char n = CHR ''0'' \<and> n mod 10 = 0 \<or> digit_char n = CHR ''1'' \<and> n mod 10 = 1 \<or>
   digit_char n = CHR ''2'' \<and> n mod 10 = 2 \<or> digit_char n = CHR ''3'' \<and> n mod 10 = 3 \<or>
   digit_char n = CHR ''4'' \<and> n mod 10 = 4 \<or> digit_char n = CHR ''5'' \<and> n mod 10 = 5 \<or>
   digit_char n = CHR ''6'' \<and> n mod 10 = 6 \<or> digit_char n = CHR ''7'' \<and> n mod 10 = 7 \<or>
   digit_char n = CHR ''8'' \<and> n mod 10 = 8 \<or> digit_char n = CHR ''9'' \<and> n mod 10 = 9"
proof -
  have "n mod 10 < 10" by simp
  then have "n mod 10 = 0 \<or> n mod 10 = 1 \<or> n mod 10 = 2 \<or> n mod 10 = 3 \<or> n mod 10 = 4 \<or>
      n mod 10 = 5 \<or> n mod 10 = 6 \<or> n mod 10 = 7 \<or> n mod 10 = 8 \<or> n mod 10 = 9"
    using below_ten [of "n mod 10"] by auto
  then show ?thesis
    by (elim disjE) (simp_all add: digit_char_def)
qed

lemma is_digit_digit_char [simp]: "is_digit (digit_char n)"
  using digit_char_cases [of n] by (auto simp: is_digit_def in_range_def)

lemma digit_val_digit_char [simp]: "digit_val (digit_char n) = n mod 10"
  using digit_char_cases [of n] by (auto simp: digit_val_def)

lemma not_space_digit_char [simp]: "\<not> is_space (digit_char n)"
  using digit_char_cases [of n] by (auto simp: is_space_def)

lemma digit_char_not_sign [simp]:
  "digit_char n \<noteq> CHR ''-''" "digit_char n \<noteq> CHR ''+''" "digit_char n \<noteq> CHR ''_''"
  "digit_char n \<noteq> CHR ''/''" "digit_char n \<noteq> CHR '' ''" "digit_char n \<noteq> CHR '':''"
  "digit_char n \<noteq> CHR ''T''" "digit_char n \<noteq> CHR ''t''"
  using digit_char_cases [of n] by auto

lemma in_range_digit_char:
  "in_range lo hi (digit_char n) = ((of_char lo :: nat) \<le> 48 + n mod 10 \<and> 48 + n mod 10 \<le> (of_char hi :: nat))"
  using digit_char_cases [of n] by (auto simp: in_range_def)

lemma split_ws_word:
  "\<forall>c \<in> set w. \<not> is_space c \<Longrightarrow> split_ws cur (w @ rest) = split_ws (cur @ w) rest"
  by (induction w arbitrary: cur) auto

lemma py_split_two:
  assumes "\<forall>c \<in> set a. \<not> is_space c" and "\<forall>c \<in> set b. \<not> is_space c" and "a \<noteq> []" and "b \<noteq> []"
  shows "py_split (a @ '' '' @ b) = [a, b]"
proof -
  have "split_ws [] (a @ (CHR '' '' # b)) = split_ws a (CHR '' '' # b)"
    using split_ws_word [OF assms(1), of "[]"] by simp
  also have "\<dots> = a # split_ws [] (b @ [])"
    using assms(3) by (simp add: is_space_def)
  also have "split_ws [] (b @ []) = split_ws b []"
    using split_ws_word [OF assms(2), of "[]" "[]"] by simp
  finally show ?thesis
    using assms(4) by (simp add: py_split_def)
qed

lemma month_name_map:
  "1 \<le> m \<Longrightarrow> m \<le> 12 \<Longrightarrow> map_of month_map (month_name m) = Some m"
proof -
  assume "1 \<le> m" "m \<le> 12"
  then have "m = 1 \<or> m = 2 \<or> m = 3 \<or> m = 4 \<or> m = 5 \<or> m = 6 \<or> m = 7 \<or> m = 8 \<or> m = 9 \<or>
      m = 10 \<or> m = 11 \<or> m = 12"
    by (rule month_cases)
  then show ?thesis
    by (auto simp: month_name_def month_map_def)
qed

lemma month_name_no_space:
  "1 \<le> m \<Longrightarrow> m \<le> 12 \<Longrightarrow> (\<forall>c \<in> set (month_name m). \<not> is_space c) \<and> month_name m \<noteq> []"
proof -
  assume "1 \<le> m" "m \<le> 12"
  then have "m = 1 \<or> m = 2 \<or> m = 3 \<or> m = 4 \<or> m = 5 \<or> m = 6 \<or> m = 7 \<or> m = 8 \<or> m = 9 \<or>
      m = 10 \<or> m = 11 \<or> m = 12"
    by (rule month_cases)
  then show ?thesis
    by (auto simp: month_name_def is_space_def)
qed


lemma str_nat_digits: "\<forall>c \<in> set (str_nat n). is_digit c \<and> \<not> is_space c"
proof (induction n rule: str_nat.induct)
  case (1 n)
  show ?case
  proof (cases "n < 10")
    case True
    then show ?thesis by (simp add: str_nat.simps [of n])
  next
    case False
    then show ?thesis using 1 by (simp add: str_nat.simps [of n])
  qed
qed

lemma str_nat_nonempty: "str_nat n \<noteq> []"
  by (simp add: str_nat.simps [of n])

lemma int_digits_snoc:
  "\<forall>c \<in> set ds. is_digit c \<Longrightarrow>
   int_digits acc (ds @ [digit_char n]) = map_option (\<lambda>v. 10 * v + n mod 10) (int_digits acc ds)"
  by (induction ds arbitrary: acc) simp_all

lemma int_digits_str_nat: "int_digits 0 (str_nat n) = Some n"
proof (induction n rule: str_nat.induct)
  case (1 n)
  show ?case
  proof (cases "n < 10")
    case True
    then show ?thesis by (simp add: str_nat.simps [of n])
  next
    case False
    then have "int_digits 0 (str_nat (n div 10)) = Some (n div 10)"
      using 1 by simp
    then show ?thesis
      using False str_nat_digits [of "n div 10"]
      by (simp add: str_nat.simps [of n] int_digits_snoc)
  qed
qed

lemma length_str_nat: "n < 10 ^ k \<Longrightarrow> 0 < k \<Longrightarrow> length (str_nat n) \<le> k"
proof (induction k arbitrary: n)
  case 0
  then show ?case by simp
next
  case (Suc k)
  show ?case
  proof (cases "n < 10")
    case True
    then show ?thesis by (simp add: str_nat.simps [of n])
  next
    case False
    then have k: "0 < k" using Suc.prems(1) by (cases k) auto
    have "n div 10 < 10 ^ k"
      using Suc.prems(1) by (simp add: less_mult_imp_div_less mult.commute)
    then have "length (str_nat (n div 10)) \<le> k"
      using Suc.IH k by simp
    then show ?thesis
      using False by (simp add: str_nat.simps [of n])
  qed
qed

lemma strip_no_space: "\<forall>c \<in> set s. \<not> is_space c \<Longrightarrow> strip s = s"
proof -
  assume a: "\<forall>c \<in> set s. \<not> is_space c"
  have 1: "dropWhile is_space s = s"
    using a by (cases s) auto
  have 2: "dropWhile is_space (rev s) = rev s"
    using a by (cases "rev s") (auto simp: rev_eq_Cons_iff)
  show ?thesis
    by (simp add: strip_def 1 2)
qed

lemma unsigned_int_str_nat:
  assumes "n \<le> 9999"
  shows "unsigned_int (str_nat n) = Some n"
proof -
  obtain d ds where s: "str_nat n = d # ds"
    using str_nat_nonempty [of n] by (cases "str_nat n") auto
  have dg: "\<forall>c \<in> set (d # ds). is_digit c"
    using str_nat_digits [of n] s by simp
  have "n < 10 ^ 4" using assms by simp
  then have "length (str_nat n) \<le> 4"
    by (rule length_str_nat) simp
  then have len: "length (filter is_digit (d # ds)) \<le> 4300"
    using s dg by simp
  have "int_digits 0 (d # ds) = Some n"
    using int_digits_str_nat [of n] s by simp
  then have "int_digits (digit_val d) ds = Some n"
    using dg by simp
  then show ?thesis
    using dg len by (simp add: unsigned_int_def s del: filter.simps)
qed

lemma is_digit_not_sign: "is_digit c \<Longrightarrow> c \<noteq> CHR ''-'' \<and> c \<noteq> CHR ''+''"
  by (auto simp: is_digit_def in_range_def)

lemma py_int_str_nat:
  assumes "n \<le> 9999"
  shows "py_int (str_nat n) = Some (int n)"
proof -
  obtain d ds where s: "str_nat n = d # ds"
    using str_nat_nonempty [of n] by (cases "str_nat n") auto
  have "is_digit d" using str_nat_digits [of n] s by simp
  then have d: "d \<noteq> CHR ''-''" "d \<noteq> CHR ''+''"
    using is_digit_not_sign by blast+
  have "strip (str_nat n) = d # ds"
    using strip_no_space [of "str_nat n"] str_nat_digits [of n] s by simp
  then show ?thesis
    using unsigned_int_str_nat [OF assms] d by (simp add: py_int_def s)
qed

lemma month_year_key_strftime:
  assumes "valid_datetime t"
  shows "month_year_key (strftime_BY t) = (int (year t), month t)"
proof -
  have m: "1 \<le> month t" "month t \<le> 12" and y: "year t \<le> 9999"
    using assms by (simp_all add: valid_datetime_def)
  have "py_split (month_name (month t) @ '' '' @ str_nat (year t)) = [month_name (month t), str_nat (year t)]"
    using month_name_no_space [OF m] str_nat_digits [of "year t"] str_nat_nonempty [of "year t"]
    by (intro py_split_two) simp_all
  then show ?thesis
    by (simp add: month_year_key_def strftime_BY_def py_int_str_nat [OF y] month_name_map [OF m])
qed





















lemma labelled_key:
  "labelled g \<Longrightarrow> d \<in> set (snd g) \<Longrightarrow> expiry_date_obj d = Some t \<Longrightarrow>
   fst g = strftime_BY t \<and> month_year_key (fst g) = (int (year t), month t)"
  by (auto simp: labelled_def month_year_key_strftime)


























end
